theory Spec2Isabelle
  imports Main "HOL-Library.Word"
begin

unbundle bit_operations_syntax

section \<open>Data model of \<open>mempool.h\<close>\<close>

text \<open>
  The target is a 64-bit Linux platform (the code uses libnuma, pthreads and
  \<open>mlock\<close>): \<open>size_t\<close>, \<open>intptr_t\<close> and pointers are 64-bit
  words whose arithmetic wraps, \<open>int\<close> is a 32-bit two's complement word.  A
  pointer is modelled by its address; the null pointer is address 0.  Node indices and
  return codes, on which the code does no arithmetic that could overflow, are modelled
  as mathematical integers.
\<close>

type_synonym size_t = "64 word"
type_synonym ptr = "64 word"
type_synonym c_int = "32 word"

definition NULL :: ptr where
  "NULL = 0"

text \<open>
  \<^verbatim>\<open>struct mempool_node { uint8_t *base; size_t size; size_t offset; int node; };\<close>
  The field \<open>size\<close> is named \<open>size_n\<close> here, since \<open>size\<close> is a constant of HOL.
\<close>

record mempool_node =
  base :: ptr
  size_n :: size_t
  offset :: size_t
  node :: int

text \<open>
  \<^verbatim>\<open>struct mempool_sys { struct mempool_node *pools; int num_nodes; size_t pool_size; };\<close>
  The array behind \<open>pools\<close> is a list of its slots; \<open>None\<close> is the null pointer.
\<close>

record mempool_sys =
  pools :: "mempool_node list option"
  num_nodes :: int
  pool_size :: size_t

text \<open>
  \<^verbatim>\<open>#define align_up(x, a) ((x + a - 1) & ~(a - 1))\<close>, used at type \<open>size_t\<close>.
\<close>

definition align_up :: "size_t \<Rightarrow> size_t \<Rightarrow> size_t" where
  "align_up x a = (x + a - 1) AND NOT (a - 1)"

text \<open>
  The conversions of \<^verbatim>\<open>int size = sys->pool_size;\<close> (a \<open>size_t\<close> cut to its low
  32 bits) and of \<open>size\<close> back to \<open>size_t\<close> in \<^verbatim>\<open>off + size\<close> (sign extension).
\<close>

definition size_t_to_int :: "size_t \<Rightarrow> c_int" where
  "size_t_to_int s = ucast s"

definition int_to_size_t :: "c_int \<Rightarrow> size_t" where
  "int_to_size_t i = scast i"

section \<open>The bump allocator\<close>

text \<open>
  \<^verbatim>\<open>void *ndp_mempool_alloc_on_node(struct mempool_sys *sys, int node, size_t align)\<close>.
  The result is the returned pointer and the registry as the call leaves it.  The
  function has no parameter for a size: the local \<open>size\<close> is read from
  \<open>sys->pool_size\<close>.  Reading \<open>sys->pools[node]\<close> through a null \<open>pools\<close>, or
  beyond the slots the array has, is undefined behaviour in C: the model returns
  \<open>None\<close> there.
\<close>

definition ndp_mempool_alloc_on_node ::
  "mempool_sys \<Rightarrow> int \<Rightarrow> size_t \<Rightarrow> (ptr \<times> mempool_sys) option" where
  "ndp_mempool_alloc_on_node sys nd align =
    (if nd < 0 \<or> num_nodes sys \<le> nd then Some (NULL, sys)
     else
       (case pools sys of
          None \<Rightarrow> None
        | Some ps \<Rightarrow>
            if length ps \<le> nat nd then None
            else
              let sz = int_to_size_t (size_t_to_int (pool_size sys));
                  p = ps ! nat nd;
                  a = (if align \<noteq> 0 then align else 1);
                  off = align_up (offset p) a
              in if size_n p < off + sz then Some (NULL, sys)
                 else Some (base p + off,
                            sys\<lparr>pools := Some (ps[nat nd := p\<lparr>offset := off + sz\<rparr>])\<rparr>)))"

section \<open>The platform\<close>

text \<open>
  libnuma, pthreads, \<open>calloc\<close> and \<open>mlock\<close> are not part of the repository.  What
  each call returns is a parameter of the model, collected in a record: one field per
  call the code makes, indexed by the node whose bootstrap makes the call where there is
  one call per node.  \<open>pool_size_addr\<close> is the address of the field
  \<open>sys->pool_size\<close>, which the code stores in \<open>t_args[node].size\<close>
  (\<^verbatim>\<open>t_args[node].size = &sys->pool_size;\<close>): the size every bootstrap thread asks for,
  and the \<open>size\<close> of every pool it creates, is that address and not the value of the
  field.
\<close>

record platform =
  numa_available :: int
  numa_max_node :: int
  numa_node_size :: "int \<Rightarrow> 64 word"
  calloc_pools :: bool
  calloc_threads :: bool
  calloc_t_args :: bool
  pool_size_addr :: size_t
  pthread_create :: "int \<Rightarrow> int"
  numa_allocate_cpumask :: "int \<Rightarrow> bool"
  numa_node_to_cpus :: "int \<Rightarrow> int"
  numa_sched_setaffinity :: "int \<Rightarrow> int"
  numa_alloc_onnode :: "size_t \<Rightarrow> int \<Rightarrow> ptr"
  mlock :: "ptr \<Rightarrow> size_t \<Rightarrow> int"

text \<open>
  The calls that acquire or release a resource are recorded in traces, each in the order
  in which one thread makes them: a region obtained from \<open>numa_alloc_onnode\<close>, a region
  pinned by \<open>mlock\<close>, the pre-faulting of \<open>warm_pages\<close>, \<open>munlock\<close>,
  \<open>numa_free\<close>, and \<open>free(sys->pools)\<close>.
\<close>

datatype event =
    NumaAllocOnNode ptr size_t int
  | Mlock ptr size_t
  | WarmPages ptr size_t
  | Munlock ptr size_t
  | NumaFree ptr size_t
  | FreePools

section \<open>Bootstrap of one node\<close>

text \<open>
  \<^verbatim>\<open>int ndp_bind_thread_to_node(int node)\<close>: \<open>-1\<close> when the CPU mask cannot be
  allocated, when the node's CPUs cannot be read, or when the affinity call is refused.
\<close>

definition ndp_bind_thread_to_node :: "platform \<Rightarrow> int \<Rightarrow> int" where
  "ndp_bind_thread_to_node pf nd =
    (if \<not> numa_allocate_cpumask pf nd then - 1
     else if numa_node_to_cpus pf nd \<noteq> 0 then - 1
     else if numa_sched_setaffinity pf nd = 0 then 0
     else - 1)"

definition ndp_bind_worker_node :: "platform \<Rightarrow> int \<Rightarrow> int" where
  "ndp_bind_worker_node pf nd = ndp_bind_thread_to_node pf nd"

text \<open>
  \<^verbatim>\<open>struct thread_args { struct mempool_node *pool; int node; size_t size; };\<close>
  The slot \<open>pool\<close> points to is passed to the thread function beside the record,
  and the slot as the thread leaves it is part of the result.
\<close>

record thread_args =
  t_node :: int
  t_size :: size_t

text \<open>
  \<^verbatim>\<open>static void *ndp_node_init_thread(void *args)\<close>: the value passed to
  \<open>pthread_exit\<close>, the pool slot, and the trace of the thread.  \<open>warm_pages\<close> writes
  every byte of the region once; the contents of memory are not part of the model, and
  the call is recorded in the trace.
\<close>

definition ndp_node_init_thread ::
  "platform \<Rightarrow> thread_args \<Rightarrow> mempool_node \<Rightarrow> int \<times> mempool_node \<times> event list" where
  "ndp_node_init_thread pf a pool =
    (if ndp_bind_thread_to_node pf (t_node a) < 0 then (- 1, pool, [])
     else
       let addr = numa_alloc_onnode pf (t_size a) (t_node a) in
       if addr = NULL then (- 1, pool, [])
       else if mlock pf addr (t_size a) \<noteq> 0
         then (- 1, pool, [NumaAllocOnNode addr (t_size a) (t_node a), NumaFree addr (t_size a)])
         else (0,
               \<lparr>base = addr, size_n = t_size a, offset = 0, node = t_node a\<rparr>,
               [NumaAllocOnNode addr (t_size a) (t_node a), Mlock addr (t_size a),
                WarmPages addr (t_size a)]))"

section \<open>Initialisation\<close>

text \<open>A slot of the array as \<open>calloc\<close> returns it: every field zero.\<close>

definition zero_node :: mempool_node where
  "zero_node = \<lparr>base = NULL, size_n = 0, offset = 0, node = 0\<rparr>"

text \<open>
  The array behind \<open>sys->pools\<close> is obtained by
  \<^verbatim>\<open>calloc(sys->num_nodes, sizeof(sys->pool_size))\<close>: \<open>sizeof(size_t)\<close> = 8 bytes
  for each node, while an element of the array is a \<open>struct mempool_node\<close>.  With
  64-bit pointers and \<open>size_t\<close> that structure occupies 32 bytes: \<open>base\<close> in bytes
  0 to 7, \<open>size\<close> in bytes 8 to 15, \<open>offset\<close> in bytes 16 to 23 and \<open>node\<close> in
  bytes 24 to 27.  \<open>pools_bytes n\<close> is the number of bytes of the array for
  \<open>num_nodes = n\<close>, and \<open>slot_bytes_ok n nd hi\<close> says that the first \<open>hi\<close> bytes of
  element \<open>nd\<close> lie inside it.  An access to bytes outside the array is undefined
  behaviour.
\<close>

definition pools_bytes :: "int \<Rightarrow> nat" where
  "pools_bytes n = 8 * nat n"

definition slot_bytes_ok :: "int \<Rightarrow> int \<Rightarrow> nat \<Rightarrow> bool" where
  "slot_bytes_ok n nd hi = (32 * nat nd + hi \<le> pools_bytes n)"

text \<open>
  The first loop of \<open>ndp_mempool_init\<close>, from \<open>node = nd\<close> on.  The state is the
  pools array, the array of thread handles, and for every node the trace of its bootstrap
  thread.  A handle is \<open>None\<close> as \<open>calloc\<close> left it, and \<open>Some r\<close> for a thread
  that was created and exits with \<open>r\<close>.

  The threads run concurrently with the loop and with each other, and none is joined
  before all are created.  Each thread writes only the slot of its own node and calls the
  platform only for its own node, so the arrays after all threads have ended do not
  depend on the schedule; the model composes the effect of a thread where the thread is
  created.  The traces of the threads are kept apart, one per node, each in the program
  order of its thread: no order between the events of different threads is part of the
  model.

  A thread that exits with 0 has stored the four fields of \<open>*a->pool\<close>, bytes 0 to 27
  of the slot of its node.  When those bytes are not inside the array the run is
  undefined: \<open>None\<close>.  A thread that exits with \<open>-1\<close> has not touched the slot.
  Forming the address \<open>&sys->pools[node]\<close> in the loop is not counted as an
  access.
\<close>

function create_threads ::
  "platform \<Rightarrow> int \<Rightarrow> int \<Rightarrow> mempool_node list \<times> int option list \<times> event list list
    \<Rightarrow> (mempool_node list \<times> int option list \<times> event list list) option" where
  "create_threads pf n nd (ps, ths, tev) =
    (if nd < n then
       (if pthread_create pf nd \<noteq> 0 then create_threads pf n (nd + 1) (ps, ths, tev)
        else
          (case ndp_node_init_thread pf \<lparr>t_node = nd, t_size = pool_size_addr pf\<rparr> (ps ! nat nd) of
             (r, p, ev) \<Rightarrow>
               if r = 0 \<and> \<not> slot_bytes_ok n nd 28 then None
               else create_threads pf n (nd + 1)
                      (ps[nat nd := p], ths[nat nd := Some r], tev[nat nd := ev])))
     else Some (ps, ths, tev))"
  by pat_completeness auto
termination
  by (relation "measure (\<lambda>(pf, n, nd, s). nat (n - nd))") auto

text \<open>
  The second loop, from \<open>node = nd\<close> on with the flag \<open>ok\<close>.  \<open>pthread_join\<close> on a
  handle that no \<open>pthread_create\<close> has set is undefined behaviour: \<open>None\<close>.
\<close>

function join_threads :: "int option list \<Rightarrow> int \<Rightarrow> int \<Rightarrow> int \<Rightarrow> int option" where
  "join_threads ths n nd ok =
    (if nd < n then
       (case ths ! nat nd of
          None \<Rightarrow> None
        | Some retval \<Rightarrow> join_threads ths n (nd + 1) (if retval \<noteq> 0 then - 1 else ok))
     else Some ok)"
  by pat_completeness auto
termination
  by (relation "measure (\<lambda>(ths, n, nd, ok). nat (n - nd))") auto

text \<open>
  The loop of the failure branch, from \<open>node = nd\<close> on, for an array obtained for
  \<open>n\<close> nodes: \<open>munlock\<close> with \<open>sys->pool_size\<close>, then \<open>numa_free\<close> with the slot's
  own size, for every slot whose \<open>base\<close> is not null.  The loop reads
  \<open>sys->pools[node].base\<close>, bytes 0 to 7 of the slot, for every node, and
  \<open>sys->pools[node].size\<close>, bytes 8 to 15, where \<open>base\<close> is not null; a read outside
  the array is undefined: \<open>None\<close>.
\<close>

function rollback_pools ::
  "mempool_node list \<Rightarrow> size_t \<Rightarrow> int \<Rightarrow> int \<Rightarrow> event list option" where
  "rollback_pools ps psz n nd =
    (if nd < n then
       (if \<not> slot_bytes_ok n nd 8 then None
        else if base (ps ! nat nd) \<noteq> NULL then
          (if \<not> slot_bytes_ok n nd 16 then None
           else
             (case rollback_pools ps psz n (nd + 1) of
                None \<Rightarrow> None
              | Some ev \<Rightarrow>
                  Some ([Munlock (base (ps ! nat nd)) psz,
                         NumaFree (base (ps ! nat nd)) (size_n (ps ! nat nd))] @ ev)))
        else rollback_pools ps psz n (nd + 1))
     else Some [])"
  by pat_completeness auto
termination
  by (relation "measure (\<lambda>(ps, psz, n, nd). nat (n - nd))") auto

text \<open>The conversion of \<^verbatim>\<open>nsize = numa_node_size(0, &nfree)\<close> to \<open>int\<close>.\<close>

definition long_to_int :: "64 word \<Rightarrow> c_int" where
  "long_to_int l = ucast l"

text \<open>
  \<^verbatim>\<open>int ndp_mempool_init(struct mempool_sys *sys)\<close>: the return code, the registry, the
  traces of the bootstrap threads (one per node) and the trace of the calling thread.
  The calling thread makes its calls after it has joined every thread, so all its events
  come after all events of the threads.  The arrays \<open>threads\<close> and \<open>t_args\<close> are used
  without a check: when one of them is null and the first loop runs, the result is
  \<open>None\<close>.  \<open>free(threads)\<close> and \<open>free(args)\<close> (which names no variable of the
  function and is read as \<open>free(t_args)\<close>) are not recorded in the trace.  The lists
  \<open>ps\<close>, \<open>ths\<close> and \<open>tev\<close> have one entry per node; which bytes of a slot of
  \<open>ps\<close> exist in memory is decided by \<open>slot_bytes_ok\<close> at every access.
\<close>

definition ndp_mempool_init ::
  "platform \<Rightarrow> mempool_sys \<Rightarrow> (int \<times> mempool_sys \<times> event list list \<times> event list) option" where
  "ndp_mempool_init pf sys =
    (if numa_available pf < 0 then Some (- 1, sys, [], [])
     else
       let nnodes = numa_max_node pf;
           nsize = long_to_int (numa_node_size pf 0)
       in
       if nsize = - 1 then Some (- 1, sys, [], [])
       else
         let sys1 = sys\<lparr>num_nodes := nnodes, pool_size := int_to_size_t nsize\<rparr> in
         if \<not> calloc_pools pf then Some (- 1, sys1\<lparr>pools := None\<rparr>, [], [])
         else if 0 < nnodes \<and> \<not> (calloc_threads pf \<and> calloc_t_args pf) then None
         else
           (case create_threads pf nnodes 0
                   (replicate (nat nnodes) zero_node, replicate (nat nnodes) None,
                    replicate (nat nnodes) []) of
              None \<Rightarrow> None
            | Some (ps, ths, tev) \<Rightarrow>
                (case join_threads ths nnodes 0 0 of
                   None \<Rightarrow> None
                 | Some ok \<Rightarrow>
                     if ok \<noteq> 0
                     then
                       (case rollback_pools ps (pool_size sys1) nnodes 0 of
                          None \<Rightarrow> None
                        | Some rb \<Rightarrow>
                            Some (- 1, sys1\<lparr>pools := None, num_nodes := 0\<rparr>, tev,
                                  rb @ [FreePools]))
                     else Some (0, sys1\<lparr>pools := Some ps\<rparr>, tev, []))))"

section \<open>Teardown\<close>

text \<open>
  The loop of \<open>mempool_system_destroy\<close>, from \<open>node = nd\<close> on.  The source writes
  \<open>sys->pools[node]->base\<close>; the model reads the field of the slot,
  \<open>sys->pools[node].base\<close>, as the failure branch of the initialisation does.  Reading
  a slot the array does not have is undefined behaviour: \<open>None\<close>.
\<close>

function destroy_pools :: "mempool_node list \<Rightarrow> int \<Rightarrow> int \<Rightarrow> event list option" where
  "destroy_pools ps n nd =
    (if nd < n then
       (if length ps \<le> nat nd then None
        else
          (case destroy_pools ps n (nd + 1) of
             None \<Rightarrow> None
           | Some ev \<Rightarrow>
               Some ((if base (ps ! nat nd) = NULL then []
                      else [Munlock (base (ps ! nat nd)) (size_n (ps ! nat nd)),
                            NumaFree (base (ps ! nat nd)) (size_n (ps ! nat nd))])
                     @ ev)))
     else Some [])"
  by pat_completeness auto
termination
  by (relation "measure (\<lambda>(ps, n, nd). nat (n - nd))") auto

text \<open>\<^verbatim>\<open>void mempool_system_destroy(struct mempool_sys *sys)\<close>: the registry and the trace.\<close>

definition mempool_system_destroy :: "mempool_sys \<Rightarrow> (mempool_sys \<times> event list) option" where
  "mempool_system_destroy sys =
    (case pools sys of
       None \<Rightarrow> Some (sys, [])
     | Some ps \<Rightarrow>
         (case destroy_pools ps (num_nodes sys) 0 of
            None \<Rightarrow> None
          | Some ev \<Rightarrow>
              Some (sys\<lparr>pools := None, num_nodes := 0, pool_size := 0\<rparr>, ev @ [FreePools])))"

section \<open>Proof setup\<close>

text \<open>
  The equations of the four loops are unfolded by hand where they are needed.
\<close>

declare create_threads.simps [simp del] join_threads.simps [simp del]
  rollback_pools.simps [simp del] destroy_pools.simps [simp del]

section \<open>Facts about 64-bit arithmetic and \<open>align_up\<close>\<close>

lemma align_up_one: "align_up x 1 = x"
  by (simp add: align_up_def)

lemma and_not_eq_diff: "(y :: 'a::len word) AND NOT m = y - (y AND m)"
proof -
  have "y - (y AND m) = y AND NOT (y AND m)"
    by (rule disjunctive_diff_eq_and_not) (simp add: bit_eq_iff bit_simps)
  also have "\<dots> = y AND NOT m"
    by (auto simp add: bit_eq_iff bit_simps) 
  finally show ?thesis by simp
qed

lemma unat_and_not: "unat ((y :: 'a::len word) AND NOT m) = unat y - unat (y AND m)"
  by (simp add: and_not_eq_diff unat_sub word_and_le2)

lemma unat_and_mask: "unat ((w :: 'a::len word) AND mask k) = unat w mod 2 ^ k"
proof -
  have "unat (w AND mask k) = unat (take_bit k w)"
    by (simp only: take_bit_eq_mask)
  also have "\<dots> = take_bit k (unat w)"
    by (rule unsigned_take_bit_eq)
  also have "\<dots> = unat w mod 2 ^ k"
    by (rule take_bit_eq_mod)
  finally show ?thesis .
qed

lemma unat_and_not_mask: "unat ((w :: 'a::len word) AND NOT (mask k)) = unat w - unat w mod 2 ^ k"
  by (simp add: unat_and_not unat_and_mask)

lemma pow2_less: "k < 64 \<Longrightarrow> (2::nat) ^ k < 2 ^ 64"
  by (rule power_strict_increasing) simp_all

lemma unat_pow2: 
  assumes "k < 64" shows "unat (2 ^ k :: 64 word) = 2 ^ k"
proof (rule of_nat_inverse)
  show "word_of_nat (2 ^ k) = (2 ^ k :: 64 word)" by simp
  show "(2::nat) ^ k < 2 ^ LENGTH(64)" using pow2_less [OF assms] by simp
qed

lemma unat_align_up_sum:
  fixes x a :: size_t
  assumes "a \<noteq> 0" "unat x + unat a \<le> 2 ^ 64"
  shows "unat (x + (a - 1)) = unat x + (unat a - 1)"
proof -
  have a1: "unat (a - 1) = unat a - 1"
    using assms(1) by (rule unat_minus_one)
  have "0 < unat a" using assms(1) by (simp add: unat_gt_0)
  then have "unat x + unat (a - 1) < 2 ^ LENGTH(64)"
    using assms(2) a1 by simp
  then have "unat (x + (a - 1)) = unat x + unat (a - 1)"
    by (rule unat_add_lem [THEN iffD1])
  then show ?thesis using a1 by simp
qed

lemma align_up_ge: 
  assumes "a \<noteq> 0" "unat x + unat a \<le> 2 ^ 64"
  shows "x \<le> align_up x a"
proof -
  have "unat ((x + (a - 1)) AND (a - 1)) \<le> unat (a - 1)"
    by (simp add: word_and_le1 flip: word_le_nat_alt)
  then have "unat x \<le> unat ((x + (a - 1)) AND NOT (a - 1))"
    using assms by (simp add: unat_and_not unat_align_up_sum unat_minus_one)
  then show ?thesis by (simp add: align_up_def word_le_nat_alt add_diff_eq)
qed

lemma align_up_pow2: "align_up x (2 ^ k) = (x + mask k) AND NOT (mask k)"
  by (simp add: align_up_def mask_eq_decr_exp add_diff_eq)

lemma unat_align_up_pow2_mod: "unat (align_up x (2 ^ k)) mod 2 ^ k = 0"
  by (simp add: align_up_pow2 unat_and_not_mask minus_mod_eq_mult_div)

lemma unat_align_up_pow2:
  assumes "k < 64" "unat x + 2 ^ k \<le> 2 ^ 64"
  shows "unat (align_up x (2 ^ k)) = ((unat x + (2 ^ k - 1)) div 2 ^ k) * 2 ^ k"
proof -
  have nz: "(2 ^ k :: 64 word) \<noteq> 0" using assms(1) by simp
  have "unat (x + (2 ^ k - 1)) = unat x + (2 ^ k - 1)"
    using unat_align_up_sum [OF nz] assms unat_pow2 by simp
  then have "unat (x + mask k) = unat x + (2 ^ k - 1)"
    by (simp add: mask_eq_decr_exp)
  then show ?thesis
    by (simp add: align_up_pow2 unat_and_not_mask minus_mod_eq_mult_div)
qed

lemma round_up_least:
  fixes x m d :: nat
  assumes "0 < d" "x \<le> m" "m mod d = 0"
  shows "((x + (d - 1)) div d) * d \<le> m"
proof -
  have "d dvd m" using assms(3) by (simp add: dvd_eq_mod_eq_0)
  then obtain q where q: "m = q * d" by (auto simp: dvd_def mult.commute)
  have "x + (d - 1) < (q + 1) * d" using assms(1,2) q by simp
  then have "(x + (d - 1)) div d < q + 1"
    using assms(1) by (simp add: div_less_iff_less_mult)
  then have "(x + (d - 1)) div d \<le> q" by simp
  then have "((x + (d - 1)) div d) * d \<le> q * d" by (rule mult_le_mono1)
  then show ?thesis using q by simp
qed

lemma alloc_valid:
  assumes "0 \<le> nd" "nd < num_nodes sys" "pools sys = Some ps" "nat nd < length ps"
  shows "ndp_mempool_alloc_on_node sys nd align =
    (if size_n (ps ! nat nd)
          < align_up (offset (ps ! nat nd)) (if align \<noteq> 0 then align else 1)
            + int_to_size_t (size_t_to_int (pool_size sys))
     then Some (NULL, sys)
     else Some (base (ps ! nat nd) + align_up (offset (ps ! nat nd)) (if align \<noteq> 0 then align else 1),
          sys\<lparr>pools := Some (ps[nat nd := (ps ! nat nd)\<lparr>offset :=
             align_up (offset (ps ! nat nd)) (if align \<noteq> 0 then align else 1)
              + int_to_size_t (size_t_to_int (pool_size sys))\<rparr>])\<rparr>))"
  using assms by (simp add: ndp_mempool_alloc_on_node_def Let_def)

lemma alloc_cases:
  assumes "ndp_mempool_alloc_on_node sys nd align = Some (r, sys')"
  shows "(r = NULL \<and> sys' = sys) \<or>
    (\<exists>ps. 0 \<le> nd \<and> nd < num_nodes sys \<and> pools sys = Some ps \<and> nat nd < length ps \<and>
      \<not> size_n (ps ! nat nd)
          < align_up (offset (ps ! nat nd)) (if align \<noteq> 0 then align else 1)
            + int_to_size_t (size_t_to_int (pool_size sys)) \<and>
      r = base (ps ! nat nd) + align_up (offset (ps ! nat nd)) (if align \<noteq> 0 then align else 1) \<and>
      sys' = sys\<lparr>pools := Some (ps[nat nd := (ps ! nat nd)\<lparr>offset :=
             align_up (offset (ps ! nat nd)) (if align \<noteq> 0 then align else 1)
              + int_to_size_t (size_t_to_int (pool_size sys))\<rparr>])\<rparr>)"
  using assms
  by (auto simp add: ndp_mempool_alloc_on_node_def Let_def split: if_splits option.splits)

section \<open>Facts about the bootstrap thread and the loops\<close>

lemma thread_creates_empty_pool:
  assumes "ndp_node_init_thread pf a pool = (0, p', ev)"
  shows "p' = \<lparr>base = numa_alloc_onnode pf (t_size a) (t_node a), size_n = t_size a,
               offset = 0, node = t_node a\<rparr> \<and> base p' \<noteq> NULL"
  using assms by (auto simp add: ndp_node_init_thread_def Let_def split: if_splits)

lemma join_threads_eq:
  assumes "0 \<le> nd" "\<forall>i. nat nd \<le> i \<and> int i < n \<longrightarrow> ths ! i = Some (rv i)"
  shows "join_threads ths n nd ok =
     Some (if \<exists>i. nat nd \<le> i \<and> int i < n \<and> rv i \<noteq> 0 then - 1 else ok)"
  using assms
proof (induction ths n nd ok rule: join_threads.induct)
  case (1 ths n nd ok)
  show ?case
  proof (cases "nd < n")
    case False
    have "nd \<le> int i" if "nat nd \<le> i" for i using that by simp
    with False have ne: "\<not> (\<exists>i. nat nd \<le> i \<and> int i < n \<and> rv i \<noteq> 0)" by fastforce
    show ?thesis by (subst join_threads.simps) (simp only: False ne if_False)
  next
    case True
    have here: "ths ! nat nd = Some (rv (nat nd))" using True "1.prems" by simp
    have nat_suc: "nat (nd + 1) = Suc (nat nd)" using "1.prems"(1) by (simp add: nat_add_distrib)
    have rest: "\<forall>i. nat (nd + 1) \<le> i \<and> int i < n \<longrightarrow> ths ! i = Some (rv i)"
      using "1.prems"(2) nat_suc by auto
    have split: "(\<exists>i. nat nd \<le> i \<and> int i < n \<and> rv i \<noteq> 0) =
        (rv (nat nd) \<noteq> 0 \<or> (\<exists>i. nat (nd + 1) \<le> i \<and> int i < n \<and> rv i \<noteq> 0))"
    proof
      assume "\<exists>i. nat nd \<le> i \<and> int i < n \<and> rv i \<noteq> 0"
      then obtain i where i: "nat nd \<le> i" "int i < n" "rv i \<noteq> 0" by blast
      show "rv (nat nd) \<noteq> 0 \<or> (\<exists>i. nat (nd + 1) \<le> i \<and> int i < n \<and> rv i \<noteq> 0)"
      proof (cases "i = nat nd")
        case True
        then show ?thesis using i(3) by simp
      next
        case False
        then have "nat (nd + 1) \<le> i" using i(1) nat_suc by simp
        then show ?thesis using i(2,3) by blast
      qed
    next
      assume "rv (nat nd) \<noteq> 0 \<or> (\<exists>i. nat (nd + 1) \<le> i \<and> int i < n \<and> rv i \<noteq> 0)"
      then show "\<exists>i. nat nd \<le> i \<and> int i < n \<and> rv i \<noteq> 0"
      proof
        assume "rv (nat nd) \<noteq> 0"
        moreover have "int (nat nd) < n" using True "1.prems"(1) by simp
        ultimately show ?thesis by blast
      next
        assume "\<exists>i. nat (nd + 1) \<le> i \<and> int i < n \<and> rv i \<noteq> 0"
        then obtain i where "nat (nd + 1) \<le> i" "int i < n" "rv i \<noteq> 0" by blast
        moreover from this have "nat nd \<le> i" using nat_suc by simp
        ultimately show ?thesis by blast
      qed
    qed
    have "join_threads ths n nd ok =
        join_threads ths n (nd + 1) (if rv (nat nd) \<noteq> 0 then - 1 else ok)"
      using True here by (subst join_threads.simps) simp
    also have "\<dots> = Some (if \<exists>i. nat (nd + 1) \<le> i \<and> int i < n \<and> rv i \<noteq> 0 then - 1
                         else (if rv (nat nd) \<noteq> 0 then - 1 else ok))"
      using "1.IH" [OF True here _ rest] "1.prems"(1) by simp
    also have "\<dots> = Some (if \<exists>i. nat nd \<le> i \<and> int i < n \<and> rv i \<noteq> 0 then - 1 else ok)"
      unfolding split by auto
    finally show ?thesis .
  qed
qed

lemma join_threads_Some:
  assumes "join_threads ths n nd ok = Some r" "0 \<le> nd"
  shows "\<forall>i. nat nd \<le> i \<and> int i < n \<longrightarrow> (\<exists>v. ths ! i = Some v \<and> (r = 0 \<longrightarrow> v = 0))"
  using assms
proof (induction ths n nd ok rule: join_threads.induct)
  case (1 ths n nd ok)
  show ?case
  proof (cases "nd < n")
    case False
    then show ?thesis using "1.prems"(2) by auto
  next
    case True
    from "1.prems"(1) True obtain v where here: "ths ! nat nd = Some v"
      and next_: "join_threads ths n (nd + 1) (if v \<noteq> 0 then - 1 else ok) = Some r"
      by (subst (asm) join_threads.simps) (auto split: option.splits)
    have nat_suc: "nat (nd + 1) = Suc (nat nd)" using "1.prems"(2) by (simp add: nat_add_distrib)
    have rest: "\<forall>i. nat (nd + 1) \<le> i \<and> int i < n \<longrightarrow> (\<exists>v. ths ! i = Some v \<and> (r = 0 \<longrightarrow> v = 0))"
      using "1.IH" [OF True here next_] "1.prems"(2) by simp
    have r0: "r = 0 \<longrightarrow> v = 0"
    proof
      assume "r = 0"
      show "v = 0"
      proof (rule ccontr)
        assume "v \<noteq> 0"
        then have j: "join_threads ths n (nd + 1) (- 1) = Some r" using next_ by simp
        have "\<forall>i. nat (nd + 1) \<le> i \<and> int i < n \<longrightarrow> ths ! i = Some (the (ths ! i))"
          using rest by auto
        from join_threads_eq [OF _ this, of "- 1"] "1.prems"(2) j
        have "r = - 1" by (simp split: if_splits)
        with \<open>r = 0\<close> show False by simp
      qed
    qed
    show ?thesis
    proof (intro allI impI)
      fix i assume i: "nat nd \<le> i \<and> int i < n"
      show "\<exists>v. ths ! i = Some v \<and> (r = 0 \<longrightarrow> v = 0)"
      proof (cases "i = nat nd")
        case True
        then show ?thesis using here r0 by simp
      next
        case False
        then have "nat (nd + 1) \<le> i" using i nat_suc by simp
        then show ?thesis using rest i by simp
      qed
    qed
  qed
qed

lemma destroy_pools_eq:
  assumes "0 \<le> nd" "n \<le> int (length ps)"
  shows "destroy_pools ps n nd =
     Some (concat (map (\<lambda>i. if base (ps ! i) = NULL then []
                            else [Munlock (base (ps ! i)) (size_n (ps ! i)),
                                  NumaFree (base (ps ! i)) (size_n (ps ! i))])
                     [nat nd..<nat n]))"
  using assms
proof (induction ps n nd rule: destroy_pools.induct)
  case (1 ps n nd)
  show ?case
  proof (cases "nd < n")
    case False
    then show ?thesis using "1.prems" by (subst destroy_pools.simps) simp
  next
    case True
    then have in_range: "\<not> length ps \<le> nat nd" using "1.prems" by simp
    have upt: "[nat nd..<nat n] = nat nd # [nat (nd + 1)..<nat n]"
      using True "1.prems" by (simp add: upt_conv_Cons nat_add_distrib)
    show ?thesis
      using True in_range "1.IH" [OF True in_range] "1.prems"
      by (subst destroy_pools.simps) (simp add: upt)
  qed
qed

lemma create_threads_handles:
  assumes "create_threads pf n nd (ps, ths, tev) = Some (ps', ths', tev')" "0 \<le> nd"
  shows "length ths' = length ths \<and> length ps' = length ps \<and>
         (\<forall>i < nat nd. ths' ! i = ths ! i) \<and>
         (\<forall>i. nat nd \<le> i \<and> int i < n \<and> i < length ths \<longrightarrow>
            ths' ! i = ths ! i \<or> ths' ! i \<noteq> Some 0 \<or> slot_bytes_ok n (int i) 28)"
  using assms
proof (induction "nat (n - nd)" arbitrary: nd ps ths tev)
  case 0
  then have "\<not> nd < n" by simp
  with "0.prems"(1) have "ths' = ths" "ps' = ps"
    by (subst (asm) create_threads.simps, simp)+
  then show ?case by simp
next
  case (Suc k)
  then have lt: "nd < n" and k: "k = nat (n - (nd + 1))" by simp_all
  have nat_suc: "nat (nd + 1) = Suc (nat nd)" using Suc.prems(2) by (simp add: nat_add_distrib)
  have nd0: "0 \<le> nd + 1" using Suc.prems(2) by simp
  show ?case
  proof (cases "pthread_create pf nd \<noteq> 0")
    case True
    with lt Suc.prems(1) have "create_threads pf n (nd + 1) (ps, ths, tev) = Some (ps', ths', tev')"
      by (subst (asm) create_threads.simps) simp
    from Suc.hyps(1) [OF k this nd0]
    have len: "length ths' = length ths" "length ps' = length ps"
      and low: "\<forall>i < nat (nd + 1). ths' ! i = ths ! i"
      and high: "\<forall>i. nat (nd + 1) \<le> i \<and> int i < n \<and> i < length ths \<longrightarrow>
            ths' ! i = ths ! i \<or> ths' ! i \<noteq> Some 0 \<or> slot_bytes_ok n (int i) 28"
      by simp_all
    show ?thesis
    proof (intro conjI allI impI)
      show "length ths' = length ths" by (rule len)
      show "length ps' = length ps" by (rule len)
      fix i assume "i < nat nd" then show "ths' ! i = ths ! i" using low nat_suc by simp
    next
      fix i assume i: "nat nd \<le> i \<and> int i < n \<and> i < length ths"
      show "ths' ! i = ths ! i \<or> ths' ! i \<noteq> Some 0 \<or> slot_bytes_ok n (int i) 28"
      proof (cases "i = nat nd")
        case True then show ?thesis using low nat_suc by simp
      next
        case False
        then have "nat (nd + 1) \<le> i" using i nat_suc by simp
        then show ?thesis using high i by simp
      qed
    qed
  next
    case False
    obtain r p ev where th: "ndp_node_init_thread pf \<lparr>t_node = nd, t_size = pool_size_addr pf\<rparr> (ps ! nat nd) = (r, p, ev)"
      by (cases "ndp_node_init_thread pf \<lparr>t_node = nd, t_size = pool_size_addr pf\<rparr> (ps ! nat nd)") auto
    from Suc.prems(1) lt False th
    have ok: "\<not> (r = 0 \<and> \<not> slot_bytes_ok n nd 28)"
      and rec: "create_threads pf n (nd + 1) (ps[nat nd := p], ths[nat nd := Some r], tev[nat nd := ev])
                 = Some (ps', ths', tev')"
      by (subst (asm) create_threads.simps, simp split: if_splits)+
    from Suc.hyps(1) [OF k rec nd0]
    have len: "length ths' = length ths" "length ps' = length ps"
      and low: "\<forall>i < nat (nd + 1). ths' ! i = ths[nat nd := Some r] ! i"
      and high: "\<forall>i. nat (nd + 1) \<le> i \<and> int i < n \<and> i < length ths \<longrightarrow>
            ths' ! i = ths[nat nd := Some r] ! i \<or> ths' ! i \<noteq> Some 0 \<or> slot_bytes_ok n (int i) 28"
      by simp_all
    show ?thesis
    proof (intro conjI allI impI)
      show "length ths' = length ths" by (rule len)
      show "length ps' = length ps" by (rule len)
      fix i assume "i < nat nd" then show "ths' ! i = ths ! i" using low nat_suc by simp
    next
      fix i assume i: "nat nd \<le> i \<and> int i < n \<and> i < length ths"
      show "ths' ! i = ths ! i \<or> ths' ! i \<noteq> Some 0 \<or> slot_bytes_ok n (int i) 28"
      proof (cases "i = nat nd")
        case True
        then have "ths' ! i = Some r" using low nat_suc i by simp
        moreover have "int i = nd" using True Suc.prems(2) by simp
        ultimately show ?thesis using ok by auto
      next
        case False
        then have "nat (nd + 1) \<le> i" using i nat_suc by simp
        moreover have "ths[nat nd := Some r] ! i = ths ! i" using False by simp
        ultimately show ?thesis using high i by metis
      qed
    qed
  qed
qed

lemma create_threads_none:
  assumes "n \<le> nd"
  shows "create_threads pf n nd s = Some s"
  using assms by (cases s) (simp add: create_threads.simps)

lemma last_slot_outside:
  assumes "0 < n"
  shows "\<not> slot_bytes_ok n (int (nat n - 1)) 28"
  using assms by (simp add: slot_bytes_ok_def pools_bytes_def)

lemma init_success_no_pools:
  assumes "ndp_mempool_init pf sys = Some (0, sys', tt, mt)"
  shows "numa_max_node pf \<le> 0 \<and> num_nodes sys' = numa_max_node pf \<and> pools sys' = Some []
         \<and> tt = [] \<and> mt = []"
proof -
  define n where "n = numa_max_node pf"
  define sys1 where
    "sys1 = sys\<lparr>num_nodes := n, pool_size := int_to_size_t (long_to_int (numa_node_size pf 0))\<rparr>"
  from assms obtain ps ths where
      cr: "create_threads pf n 0 (replicate (nat n) zero_node, replicate (nat n) None,
             replicate (nat n) []) = Some (ps, ths, tt)"
    and jn: "join_threads ths n 0 0 = Some 0"
    and res: "sys' = sys1\<lparr>pools := Some ps\<rparr>" "mt = []"
    unfolding ndp_mempool_init_def n_def sys1_def Let_def
    by (auto split: if_splits option.splits prod.splits)
  have n0: "n \<le> 0"
  proof (rule ccontr)
    assume "\<not> n \<le> 0"
    then have pos: "0 < n" by simp
    define i where "i = nat n - 1"
    have i: "nat 0 \<le> i \<and> int i < n" "i < nat n" using pos by (simp_all add: i_def)
    from join_threads_Some [OF jn] i(1) have h: "ths ! i = Some 0" by auto
    from create_threads_handles [OF cr] i have
      "ths ! i = replicate (nat n) None ! i \<or> ths ! i \<noteq> Some 0 \<or> slot_bytes_ok n (int i) 28"
      by simp
    with h i(2) have "slot_bytes_ok n (int i) 28" by simp
    with last_slot_outside [OF pos] show False by (simp add: i_def)
  qed
  with cr have "ps = []" "tt = []" by (simp_all add: create_threads_none)
  with res n0 show ?thesis by (simp add: n_def sys1_def)
qed

lemma rollback_pools_defined:
  assumes "rollback_pools ps psz n nd = Some rb" "0 \<le> nd"
  shows "rb = [] \<and> (nd < n \<longrightarrow> n = 1)"
  using assms
proof (induction "nat (n - nd)" arbitrary: nd rb)
  case 0
  then have "\<not> nd < n" by simp
  with "0.prems"(1) show ?case by (subst (asm) rollback_pools.simps) simp
next
  case (Suc k)
  then have lt: "nd < n" and k: "k = nat (n - (nd + 1))" by simp_all
  have nd0: "0 \<le> nd + 1" using Suc.prems(2) by simp
  from Suc.prems(1) lt have in8: "slot_bytes_ok n nd 8"
    by (subst (asm) rollback_pools.simps) (simp split: if_splits)
  have last: "n = nd + 1" if "rollback_pools ps psz n (nd + 1) = Some ev" for ev
  proof (rule ccontr)
    assume "n \<noteq> nd + 1"
    with lt have "nd + 1 < n" by simp
    with Suc.hyps(1) [OF k that nd0] have "n = 1" by simp
    with \<open>nd + 1 < n\<close> Suc.prems(2) show False by simp
  qed
  show ?case
  proof (cases "base (ps ! nat nd) \<noteq> NULL")
    case True
    with Suc.prems(1) lt in8 obtain ev where in16: "slot_bytes_ok n nd 16"
      and rec: "rollback_pools ps psz n (nd + 1) = Some ev"
      by (subst (asm) rollback_pools.simps) (auto split: if_splits option.splits)
    from last [OF rec] in16 Suc.prems(2) have False
      by (simp add: slot_bytes_ok_def pools_bytes_def nat_add_distrib)
    then show ?thesis ..
  next
    case False
    with Suc.prems(1) lt in8 have rec: "rollback_pools ps psz n (nd + 1) = Some rb"
      by (subst (asm) rollback_pools.simps) simp
    from Suc.hyps(1) [OF k rec nd0] have "rb = []" by simp
    moreover from last [OF rec] in8 Suc.prems(2) have "n = 1"
      by (simp add: slot_bytes_ok_def pools_bytes_def nat_add_distrib)
    ultimately show ?thesis by simp
  qed
qed

lemma init_registry_cases:
  assumes "ndp_mempool_init pf sys = Some (rc, sys', tt, mt)"
  shows "sys' = sys \<or> pools sys' = None \<or> pools sys' = Some []"
proof (cases "rc = 0")
  case True
  with assms init_success_no_pools show ?thesis by blast
next
  case False
  with assms show ?thesis
    unfolding ndp_mempool_init_def Let_def
    by (auto split: if_splits option.splits prod.splits)
qed

lemma init_main_trace:
  assumes "ndp_mempool_init pf sys = Some (rc, sys', tt, mt)"
  shows "mt = [] \<or> mt = [FreePools]"
  using assms rollback_pools_defined [of _ _ "numa_max_node pf" 0]
  unfolding ndp_mempool_init_def Let_def
  by (auto split: if_splits option.splits prod.splits)

lemma destroy_registry_cases:
  assumes "mempool_system_destroy sys = Some (sys', ev)"
  shows "sys' = sys \<or> pools sys' = None"
  using assms unfolding mempool_system_destroy_def
  by (auto split: option.splits)

section \<open>The claims\<close>

subsection \<open>C1: the cursor after a successful allocation\<close>

text \<open>
  Claim C1 says that a successful allocation advances the cursor to the aligned offset
  plus the size the caller asked for, so that on an empty pool of node 0 a request of
  64 bytes aligned to 64 is served at offset 0 and a following request of 100 bytes
  aligned to 64 at offset 64.  \<open>ndp_mempool_alloc_on_node\<close> has no size parameter: it
  advances by \<open>sys->pool_size\<close>.  With two pools of 1048576 bytes, as in the scenario
  of the specification, the first call with alignment 64 returns offset 0 and moves the
  cursor of node 0 to 1048576, and the second call returns the null pointer.
\<close>

theorem C1_alloc_advances_by_pool_size:
  "ndp_mempool_alloc_on_node
     \<lparr>pools = Some [\<lparr>base = 0x10000000, size_n = 1048576, offset = 0, node = 0\<rparr>,
                    \<lparr>base = 0x20000000, size_n = 1048576, offset = 0, node = 1\<rparr>],
      num_nodes = 2, pool_size = 1048576\<rparr> 0 64
   = Some (0x10000000 + 0,
     \<lparr>pools = Some [\<lparr>base = 0x10000000, size_n = 1048576, offset = 1048576, node = 0\<rparr>,
                    \<lparr>base = 0x20000000, size_n = 1048576, offset = 0, node = 1\<rparr>],
      num_nodes = 2, pool_size = 1048576\<rparr>)
   \<and> ndp_mempool_alloc_on_node
     \<lparr>pools = Some [\<lparr>base = 0x10000000, size_n = 1048576, offset = 1048576, node = 0\<rparr>,
                    \<lparr>base = 0x20000000, size_n = 1048576, offset = 0, node = 1\<rparr>],
      num_nodes = 2, pool_size = 1048576\<rparr> 0 64
   = Some (NULL,
     \<lparr>pools = Some [\<lparr>base = 0x10000000, size_n = 1048576, offset = 1048576, node = 0\<rparr>,
                    \<lparr>base = 0x20000000, size_n = 1048576, offset = 0, node = 1\<rparr>],
      num_nodes = 2, pool_size = 1048576\<rparr>)"
  by (simp add: ndp_mempool_alloc_on_node_def align_up_def int_to_size_t_def size_t_to_int_def)

subsection \<open>C2: initialisation is all-or-nothing\<close>

text \<open>
  Claim C2 says that when the bootstrap of at least one node fails,
  \<open>ndp_mempool_init\<close> returns an error after it has unpinned and released the region
  of every node that succeeded.  The failure branch of the code does walk over the pools
  to do so, but the array it walks over was obtained with 8 bytes for each node
  (\<^verbatim>\<open>calloc(sys->num_nodes, sizeof(sys->pool_size))\<close>) where an element takes 32.
  Here the platform reports 2, every thread is created, the bootstrap of node 0 succeeds
  and \<open>mlock\<close> fails on node 1.  The array has 16 bytes.  The thread of node 0 stores
  bytes 0 to 27 of slot 0, past the end of the array: the run is undefined before the
  failure branch is reached.  The loop of the failure branch is itself undefined on an
  array for two nodes, also on the slots as the threads would have left them: it reads
  \<open>sys->pools[1].base\<close> at bytes 32 to 39.
\<close>

theorem C2_init_rollback_out_of_bounds:
  "ndp_node_init_thread
     \<lparr>numa_available = 0, numa_max_node = 2, numa_node_size = (\<lambda>n. 1048576),
      calloc_pools = True, calloc_threads = True, calloc_t_args = True,
      pool_size_addr = 0x7FFC00001000, pthread_create = (\<lambda>n. 0),
      numa_allocate_cpumask = (\<lambda>n. True), numa_node_to_cpus = (\<lambda>n. 0),
      numa_sched_setaffinity = (\<lambda>n. 0),
      numa_alloc_onnode = (\<lambda>s n. if n = 0 then 0x10000000 else 0x20000000),
      mlock = (\<lambda>a s. if a = 0x20000000 then - 1 else 0)\<rparr>
     \<lparr>t_node = 0, t_size = 0x7FFC00001000\<rparr> zero_node
   = (0, \<lparr>base = 0x10000000, size_n = 0x7FFC00001000, offset = 0, node = 0\<rparr>,
      [NumaAllocOnNode 0x10000000 0x7FFC00001000 0, Mlock 0x10000000 0x7FFC00001000,
       WarmPages 0x10000000 0x7FFC00001000])
   \<and> fst (ndp_node_init_thread
     \<lparr>numa_available = 0, numa_max_node = 2, numa_node_size = (\<lambda>n. 1048576),
      calloc_pools = True, calloc_threads = True, calloc_t_args = True,
      pool_size_addr = 0x7FFC00001000, pthread_create = (\<lambda>n. 0),
      numa_allocate_cpumask = (\<lambda>n. True), numa_node_to_cpus = (\<lambda>n. 0),
      numa_sched_setaffinity = (\<lambda>n. 0),
      numa_alloc_onnode = (\<lambda>s n. if n = 0 then 0x10000000 else 0x20000000),
      mlock = (\<lambda>a s. if a = 0x20000000 then - 1 else 0)\<rparr>
     \<lparr>t_node = 1, t_size = 0x7FFC00001000\<rparr> zero_node) = - 1
   \<and> pools_bytes 2 = 16
   \<and> slot_bytes_ok 2 0 28 = False
   \<and> create_threads
     \<lparr>numa_available = 0, numa_max_node = 2, numa_node_size = (\<lambda>n. 1048576),
      calloc_pools = True, calloc_threads = True, calloc_t_args = True,
      pool_size_addr = 0x7FFC00001000, pthread_create = (\<lambda>n. 0),
      numa_allocate_cpumask = (\<lambda>n. True), numa_node_to_cpus = (\<lambda>n. 0),
      numa_sched_setaffinity = (\<lambda>n. 0),
      numa_alloc_onnode = (\<lambda>s n. if n = 0 then 0x10000000 else 0x20000000),
      mlock = (\<lambda>a s. if a = 0x20000000 then - 1 else 0)\<rparr>
     2 0 ([zero_node, zero_node], [None, None], [[], []])
   = None
   \<and> slot_bytes_ok 2 1 8 = False
   \<and> rollback_pools [\<lparr>base = 0x10000000, size_n = 0x7FFC00001000, offset = 0, node = 0\<rparr>, zero_node]
       1048576 2 0
   = None
   \<and> ndp_mempool_init
     \<lparr>numa_available = 0, numa_max_node = 2, numa_node_size = (\<lambda>n. 1048576),
      calloc_pools = True, calloc_threads = True, calloc_t_args = True,
      pool_size_addr = 0x7FFC00001000, pthread_create = (\<lambda>n. 0),
      numa_allocate_cpumask = (\<lambda>n. True), numa_node_to_cpus = (\<lambda>n. 0),
      numa_sched_setaffinity = (\<lambda>n. 0),
      numa_alloc_onnode = (\<lambda>s n. if n = 0 then 0x10000000 else 0x20000000),
      mlock = (\<lambda>a s. if a = 0x20000000 then - 1 else 0)\<rparr>
     \<lparr>pools = None, num_nodes = 0, pool_size = 0\<rparr>
   = None"
  by code_simp

subsection \<open>C3: a thread that could not be created\<close>

text \<open>
  Claim C3 says that a node whose bootstrap thread could not be created is counted as a
  failed node by the join loop.  The branch of the first loop taken when
  \<open>pthread_create\<close> fails is a bare \<open>continue\<close>: it records nothing, the slot of
  the node and its thread handle stay as \<open>calloc\<close> left them.  The second loop then
  calls \<open>pthread_join\<close> on that handle, which is undefined behaviour, and no step sets
  \<open>ok = -1\<close> for the node.  Here the platform reports 1 and \<open>pthread_create\<close> fails
  (with 11, \<open>EAGAIN\<close>) for node 0, so no thread runs and no slot of the array is
  written: the first loop leaves the slot and the handle as they were, and the second
  loop joins a handle that was never created.
\<close>

theorem C3_spawn_failure_not_recorded:
  "create_threads
     \<lparr>numa_available = 0, numa_max_node = 1, numa_node_size = (\<lambda>n. 1048576),
      calloc_pools = True, calloc_threads = True, calloc_t_args = True,
      pool_size_addr = 0x7FFC00001000, pthread_create = (\<lambda>n. 11),
      numa_allocate_cpumask = (\<lambda>n. True), numa_node_to_cpus = (\<lambda>n. 0),
      numa_sched_setaffinity = (\<lambda>n. 0),
      numa_alloc_onnode = (\<lambda>s n. if n = 0 then 0x10000000 else 0x20000000),
      mlock = (\<lambda>a s. 0)\<rparr>
     1 0 ([zero_node], [None], [[]])
   = Some ([zero_node], [None], [[]])
   \<and> join_threads [None] 1 0 0 = None
   \<and> ndp_mempool_init
     \<lparr>numa_available = 0, numa_max_node = 1, numa_node_size = (\<lambda>n. 1048576),
      calloc_pools = True, calloc_threads = True, calloc_t_args = True,
      pool_size_addr = 0x7FFC00001000, pthread_create = (\<lambda>n. 11),
      numa_allocate_cpumask = (\<lambda>n. True), numa_node_to_cpus = (\<lambda>n. 0),
      numa_sched_setaffinity = (\<lambda>n. 0),
      numa_alloc_onnode = (\<lambda>s n. if n = 0 then 0x10000000 else 0x20000000),
      mlock = (\<lambda>a s. 0)\<rparr>
     \<lparr>pools = None, num_nodes = 0, pool_size = 0\<rparr>
   = None"
  by code_simp

subsection \<open>C4: the registry after a successful initialisation\<close>

text \<open>
  Claim C4 says that a successful initialisation leaves a registry with one pool for
  every node the platform reports, each with a base pointer that is not null.  The code
  obtains the array of pools with 8 bytes for each node where an element takes 32, so a
  bootstrap thread that succeeds on the last node stores its pool past the end of the
  array.  Here the platform reports 2 and every call succeeds: the array has 16 bytes,
  the thread of node 0 stores bytes 0 to 27 of slot 0, and the run is undefined; the
  initialisation does not return the registry of two pools.  The only value of
  \<open>numa_max_node()\<close> for which the code returns 0 is one that is not positive: for 0,
  the value on a machine whose only node is node 0, it returns 0 with \<open>num_nodes = 0\<close>
  and no pool, while the comment in its first loop speaks of running to
  \<open>numa_max_node() + 1\<close>.
\<close>

theorem C4_init_success_out_of_bounds:
  "pools_bytes 2 = 16
   \<and> slot_bytes_ok 2 0 28 = False
   \<and> create_threads
     \<lparr>numa_available = 0, numa_max_node = 2, numa_node_size = (\<lambda>n. 1048576),
      calloc_pools = True, calloc_threads = True, calloc_t_args = True,
      pool_size_addr = 0x7FFC00001000, pthread_create = (\<lambda>n. 0),
      numa_allocate_cpumask = (\<lambda>n. True), numa_node_to_cpus = (\<lambda>n. 0),
      numa_sched_setaffinity = (\<lambda>n. 0),
      numa_alloc_onnode = (\<lambda>s n. if n = 0 then 0x10000000 else 0x20000000),
      mlock = (\<lambda>a s. 0)\<rparr>
     2 0 ([zero_node, zero_node], [None, None], [[], []])
   = None
   \<and> ndp_mempool_init
     \<lparr>numa_available = 0, numa_max_node = 2, numa_node_size = (\<lambda>n. 1048576),
      calloc_pools = True, calloc_threads = True, calloc_t_args = True,
      pool_size_addr = 0x7FFC00001000, pthread_create = (\<lambda>n. 0),
      numa_allocate_cpumask = (\<lambda>n. True), numa_node_to_cpus = (\<lambda>n. 0),
      numa_sched_setaffinity = (\<lambda>n. 0),
      numa_alloc_onnode = (\<lambda>s n. if n = 0 then 0x10000000 else 0x20000000),
      mlock = (\<lambda>a s. 0)\<rparr>
     \<lparr>pools = None, num_nodes = 0, pool_size = 0\<rparr>
   = None
   \<and> ndp_mempool_init
     \<lparr>numa_available = 0, numa_max_node = 0, numa_node_size = (\<lambda>n. 1048576),
      calloc_pools = True, calloc_threads = True, calloc_t_args = True,
      pool_size_addr = 0x7FFC00001000, pthread_create = (\<lambda>n. 0),
      numa_allocate_cpumask = (\<lambda>n. True), numa_node_to_cpus = (\<lambda>n. 0),
      numa_sched_setaffinity = (\<lambda>n. 0),
      numa_alloc_onnode = (\<lambda>s n. if n = 0 then 0x10000000 else 0x20000000),
      mlock = (\<lambda>a s. 0)\<rparr>
     \<lparr>pools = None, num_nodes = 0, pool_size = 0\<rparr>
   = Some (0, \<lparr>pools = Some [], num_nodes = 0, pool_size = 1048576\<rparr>, [], [])"
  by code_simp

subsection \<open>C5: an allocation that does not fit\<close>




subsection \<open>C6: the aligned offset\<close>

text \<open>
  Claim C6 says that for a power-of-two alignment the returned offset is the smallest
  multiple of the alignment that is not below the cursor.  \<open>align_up\<close> adds
  \<open>a - 1\<close> in \<open>size_t\<close>: where the cursor lies within \<open>a - 1\<close> of \<open>2^64\<close> the sum
  wraps.  Here a full pool with cursor \<open>2^64 - 2\<close> serves a request aligned to 4 at
  offset 0, below the cursor.
\<close>

theorem C6_counterexample:
  "ndp_mempool_alloc_on_node
     \<lparr>pools = Some [\<lparr>base = 1, size_n = 0xFFFFFFFFFFFFFFFE, offset = 0xFFFFFFFFFFFFFFFE, node = 0\<rparr>],
      num_nodes = 1, pool_size = 64\<rparr> 0 (2 ^ 2)
   = Some (1 + 0,
     \<lparr>pools = Some [\<lparr>base = 1, size_n = 0xFFFFFFFFFFFFFFFE, offset = 64, node = 0\<rparr>],
      num_nodes = 1, pool_size = 64\<rparr>)
   \<and> (1 + 0 :: ptr) \<noteq> NULL
   \<and> \<not> (0xFFFFFFFFFFFFFFFE :: size_t) \<le> 0"
  by (simp add: ndp_mempool_alloc_on_node_def align_up_def int_to_size_t_def size_t_to_int_def NULL_def)

text \<open>
  Claim C6, amended: when an allocation with alignment \<open>2^k\<close> (\<open>k < 64\<close>) returns a
  pointer that is not null, the offset of that pointer from the base of the pool is a
  multiple of \<open>2^k\<close>; and when the cursor plus \<open>2^k\<close> does not pass \<open>2^64\<close>, that
  offset is not below the cursor and not above any multiple of \<open>2^k\<close> that is not
  below the cursor.
\<close>

theorem C6_aligned_offset:
  fixes sys sys' :: mempool_sys and nd :: int and k :: nat and r :: ptr
    and ps :: "mempool_node list"
  defines "p \<equiv> ps ! nat nd"
  defines "off \<equiv> r - base p"
  assumes alloc: "ndp_mempool_alloc_on_node sys nd (2 ^ k) = Some (r, sys')"
    and success: "r \<noteq> NULL"
    and pow2: "k < 64"
    and ps: "pools sys = Some ps"
  shows "unat off mod 2 ^ k = 0
    \<and> (unat (offset p) + 2 ^ k \<le> 2 ^ 64 \<longrightarrow>
          unat (offset p) \<le> unat off
          \<and> (\<forall>m. unat (offset p) \<le> m \<and> m mod 2 ^ k = 0 \<longrightarrow> unat off \<le> m))"
proof -
  have nz: "(2 ^ k :: size_t) \<noteq> 0" using pow2 by simp
  from alloc_cases [OF alloc] success ps nz
  have off: "off = align_up (offset p) (2 ^ k)"
    by (auto simp add: off_def p_def)
  have a: "unat off mod 2 ^ k = 0"
    by (simp add: off unat_align_up_pow2_mod)
  have b: "unat (offset p) \<le> unat off
      \<and> (\<forall>m. unat (offset p) \<le> m \<and> m mod 2 ^ k = 0 \<longrightarrow> unat off \<le> m)"
    if nw: "unat (offset p) + 2 ^ k \<le> 2 ^ 64"
  proof
    have "offset p \<le> align_up (offset p) (2 ^ k)"
      using nz nw unat_pow2 [OF pow2] by (intro align_up_ge) simp_all
    then show "unat (offset p) \<le> unat off"
      by (simp add: off word_le_nat_alt)
    show "\<forall>m. unat (offset p) \<le> m \<and> m mod 2 ^ k = 0 \<longrightarrow> unat off \<le> m"
      using round_up_least [of "2 ^ k" "unat (offset p)"]
      by (simp add: off unat_align_up_pow2 [OF pow2 nw])
  qed
  from a b show ?thesis by blast
qed

text \<open>
  The theorem at cursor 100 and alignment 64: the pointer lies at offset 128.
\<close>

theorem C6_aligned_offset_witness:
  "ndp_mempool_alloc_on_node
     \<lparr>pools = Some [\<lparr>base = 0x10000000, size_n = 1048576, offset = 100, node = 0\<rparr>],
      num_nodes = 1, pool_size = 24\<rparr> 0 (2 ^ 6)
   = Some (0x10000080,
     \<lparr>pools = Some [\<lparr>base = 0x10000000, size_n = 1048576, offset = 152, node = 0\<rparr>],
      num_nodes = 1, pool_size = 24\<rparr>)
   \<and> unat (0x10000080 - 0x10000000 :: size_t) mod 2 ^ 6 = 0
   \<and> unat (100 :: size_t) \<le> unat (0x10000080 - 0x10000000 :: size_t)
   \<and> unat (0x10000080 - 0x10000000 :: size_t) \<le> 128"
proof -
  have a: "ndp_mempool_alloc_on_node
     \<lparr>pools = Some [\<lparr>base = 0x10000000, size_n = 1048576, offset = 100, node = 0\<rparr>],
      num_nodes = 1, pool_size = 24\<rparr> 0 (2 ^ 6)
   = Some (0x10000080,
     \<lparr>pools = Some [\<lparr>base = 0x10000000, size_n = 1048576, offset = 152, node = 0\<rparr>],
      num_nodes = 1, pool_size = 24\<rparr>)"
    by (simp add: ndp_mempool_alloc_on_node_def align_up_def int_to_size_t_def size_t_to_int_def)
  have s: "(0x10000080 :: ptr) \<noteq> NULL" by (simp add: NULL_def)
  have k: "(6 :: nat) < 64" by simp
  have p: "pools \<lparr>pools = Some [\<lparr>base = 0x10000000, size_n = 1048576, offset = 100, node = 0\<rparr>],
      num_nodes = 1, pool_size = 24\<rparr>
      = Some [\<lparr>base = 0x10000000, size_n = 1048576, offset = 100, node = 0\<rparr>]" by simp
  from C6_aligned_offset [OF a s k p] a show ?thesis
    by simp
qed

subsection \<open>C7: an invalid node\<close>

text \<open>
  Claim C7: for a node id that is negative or not below \<open>num_nodes\<close>, the allocation
  returns the null pointer and leaves the registry, with all its pools, unchanged.  The
  code has one error value, the null pointer, for every failure.
\<close>

theorem C7_invalid_node:
  assumes "nd < 0 \<or> num_nodes sys \<le> nd"
  shows "ndp_mempool_alloc_on_node sys nd align = Some (NULL, sys)"
  using assms by (simp add: ndp_mempool_alloc_on_node_def)

text \<open>
  The theorem at node 5 of a registry of two nodes.
\<close>

theorem C7_invalid_node_witness:
  "ndp_mempool_alloc_on_node
     \<lparr>pools = Some [\<lparr>base = 0x10000000, size_n = 1048576, offset = 0, node = 0\<rparr>,
                    \<lparr>base = 0x20000000, size_n = 1048576, offset = 0, node = 1\<rparr>],
      num_nodes = 2, pool_size = 1048576\<rparr> 5 64
   = Some (NULL,
     \<lparr>pools = Some [\<lparr>base = 0x10000000, size_n = 1048576, offset = 0, node = 0\<rparr>,
                    \<lparr>base = 0x20000000, size_n = 1048576, offset = 0, node = 1\<rparr>],
      num_nodes = 2, pool_size = 1048576\<rparr>)"
  by (rule C7_invalid_node) simp

subsection \<open>C8: the cursor invariant\<close>

text \<open>
  Claim C8 says that no operation moves a cursor backwards.  An allocation sets the
  cursor to \<open>off + size\<close> as computed in \<open>size_t\<close>.  Here the cursor is
  \<open>2^64 - 4096\<close>, within the capacity, and the size is 4096: the sum wraps to 0, which
  passes the capacity test, and the cursor moves from \<open>2^64 - 4096\<close> back to 0.
\<close>

theorem C8_counterexample:
  "offset \<lparr>base = 1, size_n = 0xFFFFFFFFFFFFFFFE, offset = 0xFFFFFFFFFFFFF000, node = 0\<rparr>
     \<le> size_n \<lparr>base = 1, size_n = 0xFFFFFFFFFFFFFFFE, offset = 0xFFFFFFFFFFFFF000, node = 0\<rparr>
   \<and> ndp_mempool_alloc_on_node
     \<lparr>pools = Some [\<lparr>base = 1, size_n = 0xFFFFFFFFFFFFFFFE, offset = 0xFFFFFFFFFFFFF000, node = 0\<rparr>],
      num_nodes = 1, pool_size = 4096\<rparr> 0 1
   = Some (0xFFFFFFFFFFFFF001,
     \<lparr>pools = Some [\<lparr>base = 1, size_n = 0xFFFFFFFFFFFFFFFE, offset = 0, node = 0\<rparr>],
      num_nodes = 1, pool_size = 4096\<rparr>)
   \<and> offset \<lparr>base = 1, size_n = 0xFFFFFFFFFFFFFFFE, offset = 0, node = 0\<rparr>
     < offset \<lparr>base = 1, size_n = 0xFFFFFFFFFFFFFFFE, offset = 0xFFFFFFFFFFFFF000, node = 0\<rparr>"
  by (simp add: ndp_mempool_alloc_on_node_def align_up_def int_to_size_t_def size_t_to_int_def)

text \<open>
  Claim C8, amended, for every operation that is given a registry.  A pool as its
  bootstrap thread creates it has cursor 0, within its capacity.  An allocation that
  returns changes no pool's capacity and keeps every cursor that was within its capacity
  within it; and when neither the cursor of the node plus the alignment passes \<open>2^64\<close>
  nor the aligned offset plus the size passes \<open>2^64 - 1\<close>, no cursor is lower after
  the call than before.  Allocation is the only operation that writes the cursor of a
  pool that exists: whenever \<open>ndp_mempool_init\<close> returns, the registry is the one it
  was given, or has no array of pools, or has an array without any pool; whenever
  \<open>mempool_system_destroy\<close> returns, the registry is the one it was given or has no
  array of pools.  The remaining function of the interface, \<open>ndp_bind_worker_node\<close>,
  is given no registry.
\<close>

theorem C8_cursor_invariant:
  fixes sys sys' :: mempool_sys and nd :: int and align :: size_t and r :: ptr
    and ps :: "mempool_node list" and pf :: platform and a :: thread_args
    and pool p' :: mempool_node and ev :: "event list"
    and isys isys' dsys dsys' :: mempool_sys and rc :: int and tt :: "event list list"
    and mt dev :: "event list"
  defines "sz \<equiv> int_to_size_t (size_t_to_int (pool_size sys))"
  defines "off \<equiv> align_up (offset (ps ! nat nd)) (if align \<noteq> 0 then align else 1)"
  shows "(ndp_node_init_thread pf a pool = (0, p', ev) \<longrightarrow> offset p' = 0 \<and> offset p' \<le> size_n p')
    \<and> (ndp_mempool_alloc_on_node sys nd align = Some (r, sys') \<and> pools sys = Some ps \<longrightarrow>
         (\<exists>ps'. pools sys' = Some ps' \<and> length ps' = length ps
            \<and> (\<forall>i < length ps.
                  size_n (ps' ! i) = size_n (ps ! i)
                  \<and> (offset (ps ! i) \<le> size_n (ps ! i) \<longrightarrow> offset (ps' ! i) \<le> size_n (ps' ! i))
                  \<and> (unat (offset (ps ! nat nd)) + unat (if align \<noteq> 0 then align else 1) \<le> 2 ^ 64
                       \<and> unat off + unat sz < 2 ^ 64
                     \<longrightarrow> offset (ps ! i) \<le> offset (ps' ! i)))))
    \<and> (ndp_mempool_init pf isys = Some (rc, isys', tt, mt) \<longrightarrow>
         isys' = isys \<or> pools isys' = None \<or> pools isys' = Some [])
    \<and> (mempool_system_destroy dsys = Some (dsys', dev) \<longrightarrow>
         dsys' = dsys \<or> pools dsys' = None)"
proof (intro conjI impI)
  assume "ndp_node_init_thread pf a pool = (0, p', ev)"
  then have "offset p' = 0" using thread_creates_empty_pool by fastforce
  then show "offset p' = 0" and "offset p' \<le> size_n p'" by simp_all
next
  assume h: "ndp_mempool_alloc_on_node sys nd align = Some (r, sys') \<and> pools sys = Some ps"
  from alloc_cases [of sys nd align r sys'] h
  consider (failed) "sys' = sys"
    | (ok) "0 \<le> nd" "nat nd < length ps" "\<not> size_n (ps ! nat nd) < off + sz"
        "sys' = sys\<lparr>pools := Some (ps[nat nd := (ps ! nat nd)\<lparr>offset := off + sz\<rparr>])\<rparr>"
    by (auto simp add: off_def sz_def)
  then show "\<exists>ps'. pools sys' = Some ps' \<and> length ps' = length ps
            \<and> (\<forall>i < length ps.
                  size_n (ps' ! i) = size_n (ps ! i)
                  \<and> (offset (ps ! i) \<le> size_n (ps ! i) \<longrightarrow> offset (ps' ! i) \<le> size_n (ps' ! i))
                  \<and> (unat (offset (ps ! nat nd)) + unat (if align \<noteq> 0 then align else 1) \<le> 2 ^ 64
                       \<and> unat off + unat sz < 2 ^ 64
                     \<longrightarrow> offset (ps ! i) \<le> offset (ps' ! i)))"
  proof cases
    case failed
    then show ?thesis using h by simp
  next
    case ok
    have mono: "offset (ps ! nat nd) \<le> off + sz"
      if nw: "unat (offset (ps ! nat nd)) + unat (if align \<noteq> 0 then align else 1) \<le> 2 ^ 64"
        and nw2: "unat off + unat sz < 2 ^ 64"
    proof -
      have "offset (ps ! nat nd) \<le> off"
        unfolding off_def using nw by (intro align_up_ge) (simp_all split: if_splits)
      moreover have "unat (off + sz) = unat off + unat sz"
        using nw2 by (simp add: unat_add_lem [THEN iffD1])
      ultimately show ?thesis by (simp add: word_le_nat_alt)
    qed
    show ?thesis
    proof (intro exI conjI allI impI)
      show "pools sys' = Some (ps[nat nd := (ps ! nat nd)\<lparr>offset := off + sz\<rparr>])"
        using ok by simp
      show "length (ps[nat nd := (ps ! nat nd)\<lparr>offset := off + sz\<rparr>]) = length ps" by simp
    next
      fix i assume "i < length ps"
      then show "size_n (ps[nat nd := (ps ! nat nd)\<lparr>offset := off + sz\<rparr>] ! i) = size_n (ps ! i)"
        by (cases "i = nat nd") simp_all
    next
      fix i assume "i < length ps" "offset (ps ! i) \<le> size_n (ps ! i)"
      then show "offset (ps[nat nd := (ps ! nat nd)\<lparr>offset := off + sz\<rparr>] ! i)
          \<le> size_n (ps[nat nd := (ps ! nat nd)\<lparr>offset := off + sz\<rparr>] ! i)"
        using ok(3) by (cases "i = nat nd") (simp_all add: not_less)
    next
      fix i assume "i < length ps"
        "unat (offset (ps ! nat nd)) + unat (if align \<noteq> 0 then align else 1) \<le> 2 ^ 64
           \<and> unat off + unat sz < 2 ^ 64"
      then show "offset (ps ! i) \<le> offset (ps[nat nd := (ps ! nat nd)\<lparr>offset := off + sz\<rparr>] ! i)"
        using mono by (cases "i = nat nd") simp_all
    qed
  qed
next
  assume "ndp_mempool_init pf isys = Some (rc, isys', tt, mt)"
  then show "isys' = isys \<or> pools isys' = None \<or> pools isys' = Some []"
    by (rule init_registry_cases)
next
  assume "mempool_system_destroy dsys = Some (dsys', dev)"
  then show "dsys' = dsys \<or> pools dsys' = None"
    by (rule destroy_registry_cases)
qed

text \<open>
  The theorem at a thread that succeeds, at an allocation that moves the cursor of a
  pool of 1048576 bytes from 100 to 152, at an initialisation on a platform that reports
  0, which replaces the array of the registry by an empty one, and at the teardown of a
  registry of one pool.
\<close>

theorem C8_cursor_invariant_witness:
  "ndp_node_init_thread
     \<lparr>numa_available = 0, numa_max_node = 1, numa_node_size = (\<lambda>n. 1048576),
      calloc_pools = True, calloc_threads = True, calloc_t_args = True,
      pool_size_addr = 0x7FFC00001000, pthread_create = (\<lambda>n. 0),
      numa_allocate_cpumask = (\<lambda>n. True), numa_node_to_cpus = (\<lambda>n. 0),
      numa_sched_setaffinity = (\<lambda>n. 0), numa_alloc_onnode = (\<lambda>s n. 0x10000000),
      mlock = (\<lambda>a s. 0)\<rparr>
     \<lparr>t_node = 0, t_size = 0x7FFC00001000\<rparr> zero_node
   = (0, \<lparr>base = 0x10000000, size_n = 0x7FFC00001000, offset = 0, node = 0\<rparr>,
      [NumaAllocOnNode 0x10000000 0x7FFC00001000 0, Mlock 0x10000000 0x7FFC00001000,
       WarmPages 0x10000000 0x7FFC00001000])
   \<and> ndp_mempool_alloc_on_node
     \<lparr>pools = Some [\<lparr>base = 0x10000000, size_n = 1048576, offset = 100, node = 0\<rparr>],
      num_nodes = 1, pool_size = 24\<rparr> 0 64
   = Some (0x10000080,
     \<lparr>pools = Some [\<lparr>base = 0x10000000, size_n = 1048576, offset = 152, node = 0\<rparr>],
      num_nodes = 1, pool_size = 24\<rparr>)
   \<and> (\<exists>ps'. pools \<lparr>pools = Some [\<lparr>base = 0x10000000, size_n = 1048576, offset = 152, node = 0\<rparr>],
      num_nodes = 1, pool_size = 24\<rparr> = Some ps' \<and> length ps' = 1
        \<and> size_n (ps' ! 0) = 1048576 \<and> offset (ps' ! 0) \<le> size_n (ps' ! 0)
        \<and> (100 :: size_t) \<le> offset (ps' ! 0))
   \<and> ndp_mempool_init
     \<lparr>numa_available = 0, numa_max_node = 0, numa_node_size = (\<lambda>n. 1048576),
      calloc_pools = True, calloc_threads = True, calloc_t_args = True,
      pool_size_addr = 0x7FFC00001000, pthread_create = (\<lambda>n. 0),
      numa_allocate_cpumask = (\<lambda>n. True), numa_node_to_cpus = (\<lambda>n. 0),
      numa_sched_setaffinity = (\<lambda>n. 0), numa_alloc_onnode = (\<lambda>s n. 0x10000000),
      mlock = (\<lambda>a s. 0)\<rparr>
     \<lparr>pools = Some [\<lparr>base = 0x10000000, size_n = 1048576, offset = 152, node = 0\<rparr>],
      num_nodes = 1, pool_size = 24\<rparr>
   = Some (0, \<lparr>pools = Some [], num_nodes = 0, pool_size = 1048576\<rparr>, [], [])
   \<and> pools \<lparr>pools = Some [], num_nodes = 0, pool_size = 1048576\<rparr> = Some []
   \<and> mempool_system_destroy
     \<lparr>pools = Some [\<lparr>base = 0x10000000, size_n = 1048576, offset = 152, node = 0\<rparr>],
      num_nodes = 1, pool_size = 24\<rparr>
   = Some (\<lparr>pools = None, num_nodes = 0, pool_size = 0\<rparr>,
      [Munlock 0x10000000 1048576, NumaFree 0x10000000 1048576, FreePools])
   \<and> pools \<lparr>pools = None, num_nodes = 0, pool_size = 0\<rparr> = None"
proof -
  have t: "ndp_node_init_thread
     \<lparr>numa_available = 0, numa_max_node = 1, numa_node_size = (\<lambda>n. 1048576),
      calloc_pools = True, calloc_threads = True, calloc_t_args = True,
      pool_size_addr = 0x7FFC00001000, pthread_create = (\<lambda>n. 0),
      numa_allocate_cpumask = (\<lambda>n. True), numa_node_to_cpus = (\<lambda>n. 0),
      numa_sched_setaffinity = (\<lambda>n. 0), numa_alloc_onnode = (\<lambda>s n. 0x10000000),
      mlock = (\<lambda>a s. 0)\<rparr>
     \<lparr>t_node = 0, t_size = 0x7FFC00001000\<rparr> zero_node
   = (0, \<lparr>base = 0x10000000, size_n = 0x7FFC00001000, offset = 0, node = 0\<rparr>,
      [NumaAllocOnNode 0x10000000 0x7FFC00001000 0, Mlock 0x10000000 0x7FFC00001000,
       WarmPages 0x10000000 0x7FFC00001000])"
    by (simp add: ndp_node_init_thread_def ndp_bind_thread_to_node_def NULL_def)
  have a: "ndp_mempool_alloc_on_node
     \<lparr>pools = Some [\<lparr>base = 0x10000000, size_n = 1048576, offset = 100, node = 0\<rparr>],
      num_nodes = 1, pool_size = 24\<rparr> 0 64
   = Some (0x10000080,
     \<lparr>pools = Some [\<lparr>base = 0x10000000, size_n = 1048576, offset = 152, node = 0\<rparr>],
      num_nodes = 1, pool_size = 24\<rparr>)"
    by (simp add: ndp_mempool_alloc_on_node_def align_up_def int_to_size_t_def size_t_to_int_def)
  have i: "ndp_mempool_init
     \<lparr>numa_available = 0, numa_max_node = 0, numa_node_size = (\<lambda>n. 1048576),
      calloc_pools = True, calloc_threads = True, calloc_t_args = True,
      pool_size_addr = 0x7FFC00001000, pthread_create = (\<lambda>n. 0),
      numa_allocate_cpumask = (\<lambda>n. True), numa_node_to_cpus = (\<lambda>n. 0),
      numa_sched_setaffinity = (\<lambda>n. 0), numa_alloc_onnode = (\<lambda>s n. 0x10000000),
      mlock = (\<lambda>a s. 0)\<rparr>
     \<lparr>pools = Some [\<lparr>base = 0x10000000, size_n = 1048576, offset = 152, node = 0\<rparr>],
      num_nodes = 1, pool_size = 24\<rparr>
   = Some (0, \<lparr>pools = Some [], num_nodes = 0, pool_size = 1048576\<rparr>, [], [])"
    by code_simp
  have d: "mempool_system_destroy
     \<lparr>pools = Some [\<lparr>base = 0x10000000, size_n = 1048576, offset = 152, node = 0\<rparr>],
      num_nodes = 1, pool_size = 24\<rparr>
   = Some (\<lparr>pools = None, num_nodes = 0, pool_size = 0\<rparr>,
      [Munlock 0x10000000 1048576, NumaFree 0x10000000 1048576, FreePools])"
    by code_simp
  from C8_cursor_invariant
    [where sys = "\<lparr>pools = Some [\<lparr>base = 0x10000000, size_n = 1048576, offset = 100, node = 0\<rparr>],
        num_nodes = 1, pool_size = 24\<rparr>" and nd = 0 and align = 64 and r = "0x10000080"
      and sys' = "\<lparr>pools = Some [\<lparr>base = 0x10000000, size_n = 1048576, offset = 152, node = 0\<rparr>],
        num_nodes = 1, pool_size = 24\<rparr>"
      and ps = "[\<lparr>base = 0x10000000, size_n = 1048576, offset = 100, node = 0\<rparr>]"] a
  have x: "\<exists>ps'. pools \<lparr>pools = Some [\<lparr>base = 0x10000000, size_n = 1048576, offset = 152, node = 0\<rparr>],
      num_nodes = 1, pool_size = 24\<rparr> = Some ps' \<and> length ps' = 1
        \<and> size_n (ps' ! 0) = 1048576 \<and> offset (ps' ! 0) \<le> size_n (ps' ! 0)
        \<and> (100 :: size_t) \<le> offset (ps' ! 0)"
    by (simp add: align_up_def int_to_size_t_def size_t_to_int_def)
  from C8_cursor_invariant
    [where pf = "\<lparr>numa_available = 0, numa_max_node = 0, numa_node_size = (\<lambda>n. 1048576),
      calloc_pools = True, calloc_threads = True, calloc_t_args = True,
      pool_size_addr = 0x7FFC00001000, pthread_create = (\<lambda>n. 0),
      numa_allocate_cpumask = (\<lambda>n. True), numa_node_to_cpus = (\<lambda>n. 0),
      numa_sched_setaffinity = (\<lambda>n. 0), numa_alloc_onnode = (\<lambda>s n. 0x10000000),
      mlock = (\<lambda>a s. 0)\<rparr>"
      and isys = "\<lparr>pools = Some [\<lparr>base = 0x10000000, size_n = 1048576, offset = 152, node = 0\<rparr>],
      num_nodes = 1, pool_size = 24\<rparr>"
      and rc = 0 and isys' = "\<lparr>pools = Some [], num_nodes = 0, pool_size = 1048576\<rparr>"
      and tt = "[]" and mt = "[]"] i
  have y: "pools \<lparr>pools = Some [], num_nodes = 0, pool_size = 1048576\<rparr> = Some []"
    by simp
  from C8_cursor_invariant
    [where dsys = "\<lparr>pools = Some [\<lparr>base = 0x10000000, size_n = 1048576, offset = 152, node = 0\<rparr>],
      num_nodes = 1, pool_size = 24\<rparr>"
      and dsys' = "\<lparr>pools = None, num_nodes = 0, pool_size = 0\<rparr>"
      and dev = "[Munlock 0x10000000 1048576, NumaFree 0x10000000 1048576, FreePools]"] d
  have z: "pools \<lparr>pools = None, num_nodes = 0, pool_size = 0\<rparr> = None"
    by simp
  from t a x i y d z show ?thesis by blast
qed

subsection \<open>C9: teardown twice\<close>

text \<open>
  Claim C9: on a registry whose \<open>pools\<close> is null, \<open>mempool_system_destroy\<close> changes
  nothing and calls nothing.  Whenever teardown returns, the registry it leaves has
  \<open>pools\<close> null, a second teardown on it changes nothing and releases nothing, and if
  the first one found pools, \<open>num_nodes\<close> and \<open>pool_size\<close> are 0.
\<close>

theorem C9_destroy_idempotent:
  "(pools sys = None \<longrightarrow> mempool_system_destroy sys = Some (sys, []))
   \<and> (mempool_system_destroy sys = Some (sys', ev) \<longrightarrow>
        pools sys' = None
        \<and> mempool_system_destroy sys' = Some (sys', [])
        \<and> (pools sys \<noteq> None \<longrightarrow> num_nodes sys' = 0 \<and> pool_size sys' = 0))"
  by (auto simp add: mempool_system_destroy_def split: option.splits)

text \<open>
  The theorem at a registry of two live pools: the first teardown unpins and releases
  both, the second does nothing.
\<close>

theorem C9_destroy_idempotent_witness:
  "mempool_system_destroy
     \<lparr>pools = Some [\<lparr>base = 0x10000000, size_n = 1048576, offset = 64, node = 0\<rparr>,
                    \<lparr>base = 0x20000000, size_n = 1048576, offset = 0, node = 1\<rparr>],
      num_nodes = 2, pool_size = 1048576\<rparr>
   = Some (\<lparr>pools = None, num_nodes = 0, pool_size = 0\<rparr>,
       [Munlock 0x10000000 1048576, NumaFree 0x10000000 1048576,
        Munlock 0x20000000 1048576, NumaFree 0x20000000 1048576, FreePools])
   \<and> mempool_system_destroy \<lparr>pools = None, num_nodes = 0, pool_size = 0\<rparr>
   = Some (\<lparr>pools = None, num_nodes = 0, pool_size = 0\<rparr>, [])"
proof -
  have d: "mempool_system_destroy
     \<lparr>pools = Some [\<lparr>base = 0x10000000, size_n = 1048576, offset = 64, node = 0\<rparr>,
                    \<lparr>base = 0x20000000, size_n = 1048576, offset = 0, node = 1\<rparr>],
      num_nodes = 2, pool_size = 1048576\<rparr>
   = Some (\<lparr>pools = None, num_nodes = 0, pool_size = 0\<rparr>,
       [Munlock 0x10000000 1048576, NumaFree 0x10000000 1048576,
        Munlock 0x20000000 1048576, NumaFree 0x20000000 1048576, FreePools])"
    by code_simp
  from C9_destroy_idempotent
    [of "\<lparr>pools = Some [\<lparr>base = 0x10000000, size_n = 1048576, offset = 64, node = 0\<rparr>,
                    \<lparr>base = 0x20000000, size_n = 1048576, offset = 0, node = 1\<rparr>],
      num_nodes = 2, pool_size = 1048576\<rparr>"
      "\<lparr>pools = None, num_nodes = 0, pool_size = 0\<rparr>"
       "[Munlock 0x10000000 1048576, NumaFree 0x10000000 1048576,
        Munlock 0x20000000 1048576, NumaFree 0x20000000 1048576, FreePools]"] d
  show ?thesis by simp
qed

subsection \<open>C10: alignment 0\<close>

text \<open>
  Claim C10: an allocation with alignment 0 is the allocation with alignment 1, whatever
  the registry and the node.  On a valid node it is not rounded at all: it fails only
  when the cursor plus the size exceeds the capacity, and otherwise returns the pointer
  at the cursor itself and advances the cursor by the size.
\<close>

theorem C10_align_zero_as_one:
  "ndp_mempool_alloc_on_node sys nd 0 = ndp_mempool_alloc_on_node sys nd 1
   \<and> (0 \<le> nd \<and> nd < num_nodes sys \<and> pools sys = Some ps \<and> nat nd < length ps \<longrightarrow>
        ndp_mempool_alloc_on_node sys nd 0 =
          (if size_n (ps ! nat nd)
                < offset (ps ! nat nd) + int_to_size_t (size_t_to_int (pool_size sys))
           then Some (NULL, sys)
           else Some (base (ps ! nat nd) + offset (ps ! nat nd),
                  sys\<lparr>pools := Some (ps[nat nd := (ps ! nat nd)\<lparr>offset :=
                    offset (ps ! nat nd) + int_to_size_t (size_t_to_int (pool_size sys))\<rparr>])\<rparr>)))"
proof
  show "ndp_mempool_alloc_on_node sys nd 0 = ndp_mempool_alloc_on_node sys nd 1"
    by (simp add: ndp_mempool_alloc_on_node_def)
next
  show "0 \<le> nd \<and> nd < num_nodes sys \<and> pools sys = Some ps \<and> nat nd < length ps \<longrightarrow>
        ndp_mempool_alloc_on_node sys nd 0 =
          (if size_n (ps ! nat nd)
                < offset (ps ! nat nd) + int_to_size_t (size_t_to_int (pool_size sys))
           then Some (NULL, sys)
           else Some (base (ps ! nat nd) + offset (ps ! nat nd),
                  sys\<lparr>pools := Some (ps[nat nd := (ps ! nat nd)\<lparr>offset :=
                    offset (ps ! nat nd) + int_to_size_t (size_t_to_int (pool_size sys))\<rparr>])\<rparr>))"
    by (simp add: alloc_valid align_up_one)
qed

text \<open>
  The theorem at cursor 3: both calls return the pointer at offset 3.
\<close>

theorem C10_align_zero_as_one_witness:
  "ndp_mempool_alloc_on_node
     \<lparr>pools = Some [\<lparr>base = 0x10000000, size_n = 1048576, offset = 3, node = 0\<rparr>],
      num_nodes = 1, pool_size = 100\<rparr> 0 0
   = Some (0x10000000 + 3,
     \<lparr>pools = Some [\<lparr>base = 0x10000000, size_n = 1048576, offset = 103, node = 0\<rparr>],
      num_nodes = 1, pool_size = 100\<rparr>)
   \<and> ndp_mempool_alloc_on_node
     \<lparr>pools = Some [\<lparr>base = 0x10000000, size_n = 1048576, offset = 3, node = 0\<rparr>],
      num_nodes = 1, pool_size = 100\<rparr> 0 1
   = Some (0x10000000 + 3,
     \<lparr>pools = Some [\<lparr>base = 0x10000000, size_n = 1048576, offset = 103, node = 0\<rparr>],
      num_nodes = 1, pool_size = 100\<rparr>)"
  using C10_align_zero_as_one
    [of "\<lparr>pools = Some [\<lparr>base = 0x10000000, size_n = 1048576, offset = 3, node = 0\<rparr>],
      num_nodes = 1, pool_size = 100\<rparr>" 0
      "[\<lparr>base = 0x10000000, size_n = 1048576, offset = 3, node = 0\<rparr>]"]
  by (auto simp add: int_to_size_t_def size_t_to_int_def)

section \<open>Further properties\<close>

text \<open>
  Initialisation fails fast: when NUMA is not available, or the size of node 0 reads as
  \<open>-1\<close>, \<open>ndp_mempool_init\<close> returns \<open>-1\<close>, calls nothing and leaves the registry
  untouched.
\<close>

theorem init_fails_fast:
  assumes "numa_available pf < 0 \<or> long_to_int (numa_node_size pf 0) = - 1"
  shows "ndp_mempool_init pf sys = Some (- 1, sys, [], [])"
  using assms by (auto simp add: ndp_mempool_init_def Let_def)

theorem init_fails_fast_witness:
  "ndp_mempool_init
     \<lparr>numa_available = - 1, numa_max_node = 2, numa_node_size = (\<lambda>n. 1048576),
      calloc_pools = True, calloc_threads = True, calloc_t_args = True,
      pool_size_addr = 0x7FFC00001000, pthread_create = (\<lambda>n. 0),
      numa_allocate_cpumask = (\<lambda>n. True), numa_node_to_cpus = (\<lambda>n. 0),
      numa_sched_setaffinity = (\<lambda>n. 0),
      numa_alloc_onnode = (\<lambda>s n. if n = 0 then 0x10000000 else 0x20000000),
      mlock = (\<lambda>a s. 0)\<rparr>
     \<lparr>pools = None, num_nodes = 0, pool_size = 0\<rparr>
   = Some (- 1, \<lparr>pools = None, num_nodes = 0, pool_size = 0\<rparr>, [], [])"
  by (rule init_fails_fast) simp

text \<open>
  Teardown of a registry whose array has a slot for every node is defined, and its trace
  is, in node order, \<open>munlock\<close> then \<open>numa_free\<close> once for every pool whose base is
  not null, then \<open>free(sys->pools)\<close>; all three fields are reset.
\<close>

theorem destroy_releases_each_pool_once:
  assumes "pools sys = Some ps" "num_nodes sys \<le> int (length ps)"
  shows "mempool_system_destroy sys =
     Some (sys\<lparr>pools := None, num_nodes := 0, pool_size := 0\<rparr>,
       concat (map (\<lambda>i. if base (ps ! i) = NULL then []
                          else [Munlock (base (ps ! i)) (size_n (ps ! i)),
                                NumaFree (base (ps ! i)) (size_n (ps ! i))])
                   [0..<nat (num_nodes sys)])
       @ [FreePools])"
  using assms by (simp add: mempool_system_destroy_def destroy_pools_eq)

theorem destroy_releases_each_pool_once_witness:
  "mempool_system_destroy
     \<lparr>pools = Some [\<lparr>base = 0x10000000, size_n = 1048576, offset = 64, node = 0\<rparr>,
                    \<lparr>base = NULL, size_n = 0, offset = 0, node = 0\<rparr>,
                    \<lparr>base = 0x30000000, size_n = 1048576, offset = 0, node = 2\<rparr>],
      num_nodes = 3, pool_size = 1048576\<rparr>
   = Some (\<lparr>pools = None, num_nodes = 0, pool_size = 0\<rparr>,
       [Munlock 0x10000000 1048576, NumaFree 0x10000000 1048576,
        Munlock 0x30000000 1048576, NumaFree 0x30000000 1048576, FreePools])"
proof -
  have run: "mempool_system_destroy
     \<lparr>pools = Some [\<lparr>base = 0x10000000, size_n = 1048576, offset = 64, node = 0\<rparr>,
                    \<lparr>base = NULL, size_n = 0, offset = 0, node = 0\<rparr>,
                    \<lparr>base = 0x30000000, size_n = 1048576, offset = 0, node = 2\<rparr>],
      num_nodes = 3, pool_size = 1048576\<rparr>
   = Some (\<lparr>pools = None, num_nodes = 0, pool_size = 0\<rparr>,
       [Munlock 0x10000000 1048576, NumaFree 0x10000000 1048576,
        Munlock 0x30000000 1048576, NumaFree 0x30000000 1048576, FreePools])"
    by code_simp
  from destroy_releases_each_pool_once
    [of "\<lparr>pools = Some [\<lparr>base = 0x10000000, size_n = 1048576, offset = 64, node = 0\<rparr>,
                    \<lparr>base = NULL, size_n = 0, offset = 0, node = 0\<rparr>,
                    \<lparr>base = 0x30000000, size_n = 1048576, offset = 0, node = 2\<rparr>],
      num_nodes = 3, pool_size = 1048576\<rparr>"
     "[\<lparr>base = 0x10000000, size_n = 1048576, offset = 64, node = 0\<rparr>,
                    \<lparr>base = NULL, size_n = 0, offset = 0, node = 0\<rparr>,
                    \<lparr>base = 0x30000000, size_n = 1048576, offset = 0, node = 2\<rparr>]"] run
  show ?thesis by simp
qed

text \<open>
  An allocation touches nothing but the cursor of the node it is called for: node count,
  pool size, every base pointer and node id, and every other pool are as before.
\<close>

theorem alloc_frame:
  assumes "ndp_mempool_alloc_on_node sys nd align = Some (r, sys')" "pools sys = Some ps"
  shows "num_nodes sys' = num_nodes sys \<and> pool_size sys' = pool_size sys
    \<and> (\<exists>ps'. pools sys' = Some ps' \<and> length ps' = length ps
          \<and> (\<forall>i < length ps. base (ps' ! i) = base (ps ! i) \<and> node (ps' ! i) = node (ps ! i)
                \<and> (i \<noteq> nat nd \<longrightarrow> ps' ! i = ps ! i)))"
proof -
  from alloc_cases [OF assms(1)] assms(2)
  consider "sys' = sys"
    | off where "nat nd < length ps"
        "sys' = sys\<lparr>pools := Some (ps[nat nd := (ps ! nat nd)\<lparr>offset := off\<rparr>])\<rparr>"
    by auto
  then show ?thesis
  proof cases
    case 1
    then show ?thesis using assms(2) by simp
  next
    case 2
    then show ?thesis by (auto simp add: nth_list_update)
  qed
qed

theorem alloc_frame_witness:
  "ndp_mempool_alloc_on_node
     \<lparr>pools = Some [\<lparr>base = 0x10000000, size_n = 1048576, offset = 0, node = 0\<rparr>,
                    \<lparr>base = 0x20000000, size_n = 1048576, offset = 7, node = 1\<rparr>],
      num_nodes = 2, pool_size = 100\<rparr> 0 64
   = Some (0x10000000,
     \<lparr>pools = Some [\<lparr>base = 0x10000000, size_n = 1048576, offset = 100, node = 0\<rparr>,
                    \<lparr>base = 0x20000000, size_n = 1048576, offset = 7, node = 1\<rparr>],
      num_nodes = 2, pool_size = 100\<rparr>)
   \<and> (\<exists>ps'. pools \<lparr>pools = Some [\<lparr>base = 0x10000000, size_n = 1048576, offset = 100, node = 0\<rparr>,
                    \<lparr>base = 0x20000000, size_n = 1048576, offset = 7, node = 1\<rparr>],
      num_nodes = 2, pool_size = 100\<rparr> = Some ps' \<and> length ps' = 2
        \<and> ps' ! 1 = \<lparr>base = 0x20000000, size_n = 1048576, offset = 7, node = 1\<rparr>)"
proof -
  have run: "ndp_mempool_alloc_on_node
     \<lparr>pools = Some [\<lparr>base = 0x10000000, size_n = 1048576, offset = 0, node = 0\<rparr>,
                    \<lparr>base = 0x20000000, size_n = 1048576, offset = 7, node = 1\<rparr>],
      num_nodes = 2, pool_size = 100\<rparr> 0 64
   = Some (0x10000000,
     \<lparr>pools = Some [\<lparr>base = 0x10000000, size_n = 1048576, offset = 100, node = 0\<rparr>,
                    \<lparr>base = 0x20000000, size_n = 1048576, offset = 7, node = 1\<rparr>],
      num_nodes = 2, pool_size = 100\<rparr>)"
    by (simp add: ndp_mempool_alloc_on_node_def align_up_def int_to_size_t_def size_t_to_int_def)
  from alloc_frame [OF run] run show ?thesis by simp
qed

text \<open>
  No initialisation that returns 0 has created a pool: it returns 0 only when
  \<open>numa_max_node()\<close> is not positive, with an empty array.  For every positive node
  count the thread of the last node, if it succeeds, stores its pool past the end of the
  array of 8 bytes per node.
\<close>

theorem init_success_has_no_pool:
  assumes "ndp_mempool_init pf sys = Some (0, sys', tt, mt)"
  shows "numa_max_node pf \<le> 0 \<and> num_nodes sys' = numa_max_node pf \<and> pools sys' = Some []"
  using init_success_no_pools [OF assms] by simp

theorem init_success_has_no_pool_witness:
  "ndp_mempool_init
     \<lparr>numa_available = 0, numa_max_node = 0, numa_node_size = (\<lambda>n. 1048576),
      calloc_pools = True, calloc_threads = True, calloc_t_args = True,
      pool_size_addr = 0x7FFC00001000, pthread_create = (\<lambda>n. 0),
      numa_allocate_cpumask = (\<lambda>n. True), numa_node_to_cpus = (\<lambda>n. 0),
      numa_sched_setaffinity = (\<lambda>n. 0),
      numa_alloc_onnode = (\<lambda>s n. if n = 0 then 0x10000000 else 0x20000000),
      mlock = (\<lambda>a s. 0)\<rparr>
     \<lparr>pools = None, num_nodes = 0, pool_size = 0\<rparr>
   = Some (0, \<lparr>pools = Some [], num_nodes = 0, pool_size = 1048576\<rparr>, [], [])
   \<and> (0 :: int) \<le> 0
   \<and> num_nodes \<lparr>pools = Some [], num_nodes = 0, pool_size = 1048576\<rparr> = 0
   \<and> pools \<lparr>pools = Some [], num_nodes = 0, pool_size = 1048576\<rparr> = Some []"
proof -
  have run: "ndp_mempool_init
     \<lparr>numa_available = 0, numa_max_node = 0, numa_node_size = (\<lambda>n. 1048576),
      calloc_pools = True, calloc_threads = True, calloc_t_args = True,
      pool_size_addr = 0x7FFC00001000, pthread_create = (\<lambda>n. 0),
      numa_allocate_cpumask = (\<lambda>n. True), numa_node_to_cpus = (\<lambda>n. 0),
      numa_sched_setaffinity = (\<lambda>n. 0),
      numa_alloc_onnode = (\<lambda>s n. if n = 0 then 0x10000000 else 0x20000000),
      mlock = (\<lambda>a s. 0)\<rparr>
     \<lparr>pools = None, num_nodes = 0, pool_size = 0\<rparr>
   = Some (0, \<lparr>pools = Some [], num_nodes = 0, pool_size = 1048576\<rparr>, [], [])"
    by code_simp
  from init_success_has_no_pool [OF run] run show ?thesis by simp
qed

text \<open>
  No initialisation that returns has unpinned or released a region in its failure
  branch: the calling thread's trace is empty or is \<open>free(sys->pools)\<close> alone.  The
  loop of the failure branch is defined only on an array for one node whose slot is
  still zero.
\<close>

theorem init_releases_nothing:
  assumes "ndp_mempool_init pf sys = Some (rc, sys', tt, mt)"
  shows "mt = [] \<or> mt = [FreePools]"
  using assms by (rule init_main_trace)

theorem init_releases_nothing_witness:
  "ndp_mempool_init
     \<lparr>numa_available = 0, numa_max_node = 1, numa_node_size = (\<lambda>n. 1048576),
      calloc_pools = True, calloc_threads = True, calloc_t_args = True,
      pool_size_addr = 0x7FFC00001000, pthread_create = (\<lambda>n. 0),
      numa_allocate_cpumask = (\<lambda>n. True), numa_node_to_cpus = (\<lambda>n. 0),
      numa_sched_setaffinity = (\<lambda>n. - 1),
      numa_alloc_onnode = (\<lambda>s n. if n = 0 then 0x10000000 else 0x20000000),
      mlock = (\<lambda>a s. 0)\<rparr>
     \<lparr>pools = None, num_nodes = 0, pool_size = 0\<rparr>
   = Some (- 1, \<lparr>pools = None, num_nodes = 0, pool_size = 1048576\<rparr>, [[]], [FreePools])
   \<and> ([FreePools] = [] \<or> [FreePools] = [FreePools])"
proof -
  have run: "ndp_mempool_init
     \<lparr>numa_available = 0, numa_max_node = 1, numa_node_size = (\<lambda>n. 1048576),
      calloc_pools = True, calloc_threads = True, calloc_t_args = True,
      pool_size_addr = 0x7FFC00001000, pthread_create = (\<lambda>n. 0),
      numa_allocate_cpumask = (\<lambda>n. True), numa_node_to_cpus = (\<lambda>n. 0),
      numa_sched_setaffinity = (\<lambda>n. - 1),
      numa_alloc_onnode = (\<lambda>s n. if n = 0 then 0x10000000 else 0x20000000),
      mlock = (\<lambda>a s. 0)\<rparr>
     \<lparr>pools = None, num_nodes = 0, pool_size = 0\<rparr>
   = Some (- 1, \<lparr>pools = None, num_nodes = 0, pool_size = 1048576\<rparr>, [[]], [FreePools])"
    by code_simp
  from init_releases_nothing [OF run] run show ?thesis by simp
qed

end
